theory Spec2Isabelle
  imports Main "HOL-Library.Multiset"
begin

section \<open>Data model\<close>

text \<open>
  The action (\<^verbatim>\<open>src/index.js\<close>) reads the commits of a pull request, extracts
  Jira ticket ids from the commit messages, looks each id up in Jira, groups the issues
  by their parent Story, lists the Story children that no commit mentions, and replaces
  the pull-request description by a Markdown report.

  A JavaScript string is a \<^typ>\<open>string\<close>. The objects the code builds are records:
  the \<^verbatim>\<open>result\<close> of \<^verbatim>\<open>getJiraIssueInfo\<close> (key, type, title and an optional parent) and
  its \<^verbatim>\<open>parent\<close> (key, type, title). The objects of \<^verbatim>\<open>getStoryChildren\<close> have no
  \<^verbatim>\<open>parent\<close> property: they are issues whose parent is \<open>None\<close>.
\<close>

record parent_ref =
  parent_key :: string
  parent_type :: string
  parent_title :: string

record issue =
  issue_key :: string
  issue_type :: string
  issue_title :: string
  issue_parent :: "parent_ref option"

text \<open>
  The fields the code reads of the tracker's JSON answers: of an issue lookup,
  \<^verbatim>\<open>data.fields.issuetype.name\<close>, \<^verbatim>\<open>data.fields.summary\<close> and \<^verbatim>\<open>data.fields.parent\<close>
  (absent, or an object with \<^verbatim>\<open>key\<close>, \<^verbatim>\<open>fields.issuetype.name\<close>, \<^verbatim>\<open>fields.summary\<close>);
  of a search, the elements of \<^verbatim>\<open>data.issues\<close>.
\<close>

record parent_json =
  pj_key :: string
  pj_issuetype_name :: string
  pj_summary :: string

record issue_json =
  ij_issuetype_name :: string
  ij_summary :: string
  ij_parent :: "parent_json option"

record child_json =
  cj_key :: string
  cj_issuetype_name :: string
  cj_summary :: string

text \<open>
  A tracker call awaits \<^verbatim>\<open>fetch(url, ...)\<close> and reads the response. Four things can
  happen. The \<^verbatim>\<open>await\<close> throws: node-fetch rejects when the request cannot be made (the
  host is unreachable, the connection is refused). The response has \<^verbatim>\<open>ok\<close> false (a
  status outside 200-299); its body is not read. The response has \<^verbatim>\<open>ok\<close> true and a
  body the code cannot use: \<^verbatim>\<open>response.json()\<close> rejects because the body is not JSON,
  or an object that the code reads a property of is absent (\<^verbatim>\<open>data.fields\<close>,
  \<^verbatim>\<open>data.fields.issuetype\<close> or \<^verbatim>\<open>data.fields.parent.fields\<close> and its
  \<^verbatim>\<open>issuetype\<close> at lines 23-34; \<^verbatim>\<open>data.issues\<close>, or the \<^verbatim>\<open>fields\<close> or
  \<^verbatim>\<open>issuetype\<close> of one of its elements, at lines 60-63) and the read throws a TypeError;
  the string is the message of the error thrown. Or the response has \<^verbatim>\<open>ok\<close> true and a
  body with all that the code reads.
\<close>

datatype 'a fetch_result = Rejected string | Not_Ok | Ok_Unusable string | Ok_Json 'a

text \<open>The message of the error that the call throws, if the outcome is one of the two that throw.\<close>

fun thrown :: "'a fetch_result \<Rightarrow> string option" where
  "thrown (Rejected e) = Some e"
| "thrown Not_Ok = None"
| "thrown (Ok_Unusable e) = Some e"
| "thrown (Ok_Json body) = None"

text \<open>
  What an asynchronous call has done when it settles: the URLs it passed to
  \<^verbatim>\<open>fetch\<close>, the lines it wrote with \<^verbatim>\<open>console.warn\<close>, and either the message of the
  error it threw (\<open>Inl\<close>) or the value it returned (\<open>Inr\<close>).
\<close>

record 'a settled =
  requests :: "string list"
  warnings :: "string list"
  result :: "string + 'a"

text \<open>
  Everything outside the program. \<^verbatim>\<open>core.getInput(name, {required})\<close> throws or returns
  a string; \<^verbatim>\<open>context.payload.pull_request\<close> is absent or carries the number;
  \<^verbatim>\<open>octokit.rest.pulls.listCommits\<close> throws or gives the commit messages;
  \<^verbatim>\<open>new RegExp(pattern, "g")\<close> throws a SyntaxError or gives a regular expression, which
  is what \<^verbatim>\<open>message.match(regex)\<close> returns on each message (\<^verbatim>\<open>null\<close> is \<open>None\<close>);
  the two tracker endpoints answer by URL; every request has the time at which it
  settles (the callbacks of \<^verbatim>\<open>Promise.all\<close> run in that order);
  \<^verbatim>\<open>octokit.rest.pulls.update\<close> returns or throws. The e-mail and the API token only
  fill the Authorization header, which the answers here do not depend on.
\<close>

record world =
  core_getInput :: "string \<Rightarrow> bool \<Rightarrow> string + string"
  pull_request :: "nat option"
  listCommits :: "nat \<Rightarrow> string + string list"
  RegExp_g :: "string \<Rightarrow> string + (string \<Rightarrow> string list option)"
  fetch_issue :: "string \<Rightarrow> issue_json fetch_result"
  fetch_search :: "string \<Rightarrow> child_json list fetch_result"
  latency :: "string \<Rightarrow> nat"
  pulls_update_throws :: "nat \<Rightarrow> string \<Rightarrow> string option"

text \<open>
  What a run leaves behind: the message of \<^verbatim>\<open>core.setFailed\<close> if it was called, the
  notices of \<^verbatim>\<open>core.notice\<close>, the warnings, the tracker URLs fetched and the calls of
  \<^verbatim>\<open>octokit.rest.pulls.update\<close> (pull number and body).
\<close>

record outcome =
  setFailed :: "string option"
  notices :: "string list"
  console_warn :: "string list"
  fetched :: "string list"
  pulls_update :: "(nat \<times> string) list"

section \<open>Ticket extraction (lines 99-109)\<close>

text \<open>
  \<^verbatim>\<open>new Set(xs)\<close> adds the elements of \<open>xs\<close> one by one; an element already in the
  set is not added again, and the set iterates in insertion order.
\<close>

definition Set_add :: "'a list \<Rightarrow> 'a \<Rightarrow> 'a list" where
  "Set_add s x = (if x \<in> set s then s else s @ [x])"

definition new_Set :: "'a list \<Rightarrow> 'a list" where
  "new_Set xs = foldl Set_add [] xs"

text \<open>
  \<^verbatim>\<open>commits.map(callback)\<close>: the callback compiles the pattern anew for every commit
  and returns the matches of the message, or \<^verbatim>\<open>[]\<close> when \<^verbatim>\<open>match\<close> gives \<^verbatim>\<open>null\<close>.
  The first commit whose callback throws ends the map. With no commit the callback is
  never called.
\<close>

fun commits_map ::
  "(string \<Rightarrow> string + (string \<Rightarrow> string list option)) \<Rightarrow> string \<Rightarrow> string list
    \<Rightarrow> string + string list list" where
  "commits_map re jiraTicketPattern [] = Inr []"
| "commits_map re jiraTicketPattern (message # rest) =
     (case re jiraTicketPattern of
        Inl e \<Rightarrow> Inl e
      | Inr regex \<Rightarrow>
          (case commits_map re jiraTicketPattern rest of
             Inl e \<Rightarrow> Inl e
           | Inr ms \<Rightarrow>
               Inr ((case regex message of Some matches \<Rightarrow> matches | None \<Rightarrow> []) # ms)))"

definition ticketIds ::
  "(string \<Rightarrow> string + (string \<Rightarrow> string list option)) \<Rightarrow> string \<Rightarrow> string list
    \<Rightarrow> string + string list" where
  "ticketIds re jiraTicketPattern commits =
     (case commits_map re jiraTicketPattern commits of
        Inl e \<Rightarrow> Inl e
      | Inr ms \<Rightarrow> Inr (new_Set (concat ms)))"

text \<open>The matches of a compiled expression in one message, \<^verbatim>\<open>null\<close> read as none.\<close>

definition matches_of :: "(string \<Rightarrow> string list option) \<Rightarrow> string \<Rightarrow> string list" where
  "matches_of regex message = (case regex message of Some matches \<Rightarrow> matches | None \<Rightarrow> [])"

section \<open>Tracker calls (lines 5-65)\<close>

definition issue_url :: "string \<Rightarrow> string \<Rightarrow> string" where
  "issue_url baseUrl issueKey = baseUrl @ ''/rest/api/3/issue/'' @ issueKey"

definition search_url :: "string \<Rightarrow> string \<Rightarrow> string" where
  "search_url baseUrl storyKey = baseUrl @ ''/rest/api/3/search?jql=parent='' @ storyKey"

text \<open>
  Lines 21-38: the issue built from a successful lookup. The parent is attached only
  when the answer has one and its type name is \<^verbatim>\<open>"Story"\<close>.
\<close>

definition issue_of_json :: "string \<Rightarrow> issue_json \<Rightarrow> issue" where
  "issue_of_json issueKey data =
     \<lparr>issue_key = issueKey,
      issue_type = ij_issuetype_name data,
      issue_title = ij_summary data,
      issue_parent =
        (case ij_parent data of
           Some p \<Rightarrow>
             if pj_issuetype_name p = ''Story''
             then Some \<lparr>parent_key = pj_key p, parent_type = ''Story'',
                        parent_title = pj_summary p\<rparr>
             else None
         | None \<Rightarrow> None)\<rparr>"

definition getJiraIssueInfo :: "world \<Rightarrow> string \<Rightarrow> string \<Rightarrow> issue option settled" where
  "getJiraIssueInfo w issueKey baseUrl =
     (case fetch_issue w (issue_url baseUrl issueKey) of
        Rejected e \<Rightarrow>
          \<lparr>requests = [issue_url baseUrl issueKey], warnings = [], result = Inl e\<rparr>
      | Not_Ok \<Rightarrow>
          \<lparr>requests = [issue_url baseUrl issueKey],
           warnings = [''Unable to fetch info for '' @ issueKey],
           result = Inr None\<rparr>
      | Ok_Unusable e \<Rightarrow>
          \<lparr>requests = [issue_url baseUrl issueKey], warnings = [], result = Inl e\<rparr>
      | Ok_Json data \<Rightarrow>
          \<lparr>requests = [issue_url baseUrl issueKey], warnings = [],
           result = Inr (Some (issue_of_json issueKey data))\<rparr>)"

definition child_of_json :: "child_json \<Rightarrow> issue" where
  "child_of_json c =
     \<lparr>issue_key = cj_key c, issue_type = cj_issuetype_name c,
      issue_title = cj_summary c, issue_parent = None\<rparr>"

definition getStoryChildren :: "world \<Rightarrow> string \<Rightarrow> string \<Rightarrow> issue list settled" where
  "getStoryChildren w storyKey baseUrl =
     (case fetch_search w (search_url baseUrl storyKey) of
        Rejected e \<Rightarrow>
          \<lparr>requests = [search_url baseUrl storyKey], warnings = [], result = Inl e\<rparr>
      | Not_Ok \<Rightarrow>
          \<lparr>requests = [search_url baseUrl storyKey],
           warnings = [''Unable to fetch children for '' @ storyKey],
           result = Inr []\<rparr>
      | Ok_Unusable e \<Rightarrow>
          \<lparr>requests = [search_url baseUrl storyKey], warnings = [], result = Inl e\<rparr>
      | Ok_Json issues \<Rightarrow>
          \<lparr>requests = [search_url baseUrl storyKey], warnings = [],
           result = Inr (map child_of_json issues)\<rparr>)"

section \<open>Promise.all\<close>

text \<open>
  \<^verbatim>\<open>Promise.all(keys.map(task))\<close> starts every task in the order of the keys (each task
  runs up to its \<^verbatim>\<open>await fetch\<close>, so the requests go out in that order) and the tasks
  then finish in the order in which their requests settle, the earlier key first when two
  settle together. The promise rejects with the error of the first task that throws;
  otherwise it gives the values in the order of the keys.
\<close>

fun first_rejection :: "(string + 'a) list \<Rightarrow> string option" where
  "first_rejection [] = None"
| "first_rejection (Inl e # rs) = Some e"
| "first_rejection (Inr v # rs) = first_rejection rs"

fun fulfilled :: "(string + 'a) list \<Rightarrow> 'a list" where
  "fulfilled [] = []"
| "fulfilled (Inl e # rs) = fulfilled rs"
| "fulfilled (Inr v # rs) = v # fulfilled rs"

definition completion_order :: "world \<Rightarrow> (string \<Rightarrow> string) \<Rightarrow> string list \<Rightarrow> string list" where
  "completion_order w url keys = sort_key (\<lambda>k. latency w (url k)) keys"

definition Promise_all ::
  "world \<Rightarrow> (string \<Rightarrow> string) \<Rightarrow> string list \<Rightarrow> (string \<Rightarrow> 'a settled) \<Rightarrow> 'a list settled" where
  "Promise_all w url keys task =
     \<lparr>requests = concat (map (\<lambda>k. requests (task k)) keys),
      warnings = concat (map (\<lambda>k. warnings (task k)) (completion_order w url keys)),
      result =
        (case first_rejection (map (\<lambda>k. result (task k)) (completion_order w url keys)) of
           Some e \<Rightarrow> Inl e
         | None \<Rightarrow> Inr (fulfilled (map (\<lambda>k. result (task k)) keys)))\<rparr>"

section \<open>Aggregation (lines 153-188)\<close>

text \<open>
  \<^verbatim>\<open>storyMap\<close> is a JavaScript \<^verbatim>\<open>Map\<close> from the parent key to an object with the
  \<^verbatim>\<open>story\<close> and its \<^verbatim>\<open>children\<close>; a \<^verbatim>\<open>Map\<close> iterates in the order in which its keys
  were first set, so it is an association list.
\<close>

record story_group =
  story :: parent_ref
  children :: "issue list"

type_synonym story_map = "(string \<times> story_group) list"

definition Map_has :: "story_map \<Rightarrow> string \<Rightarrow> bool" where
  "Map_has m k = (k \<in> set (map fst m))"

fun Map_set :: "story_map \<Rightarrow> string \<Rightarrow> story_group \<Rightarrow> story_map" where
  "Map_set [] k v = [(k, v)]"
| "Map_set ((k', v') # m) k v = (if k' = k then (k, v) # m else (k', v') # Map_set m k v)"

text \<open>
  \<^verbatim>\<open>storyMap.get(parentKey).children.push(issue)\<close>: the group of that key, changed in
  place. The key is in the map whenever line 165 runs, since line 160 has set it if it was
  not.
\<close>

fun children_push :: "story_map \<Rightarrow> string \<Rightarrow> issue \<Rightarrow> story_map" where
  "children_push [] k i = []"
| "children_push ((k', g) # m) k i =
     (if k' = k then (k', g\<lparr>children := children g @ [i]\<rparr>) # m
      else (k', g) # children_push m k i)"

text \<open>One call of the \<^verbatim>\<open>forEach\<close> callback of lines 156-169, on the map and the orphan list.\<close>

definition forEach_issue :: "story_map \<times> issue list \<Rightarrow> issue \<Rightarrow> story_map \<times> issue list" where
  "forEach_issue st i =
     (case issue_parent i of
        Some p \<Rightarrow>
          (let parentKey = parent_key p;
               m = (if \<not> Map_has (fst st) parentKey
                    then Map_set (fst st) parentKey \<lparr>story = p, children = []\<rparr>
                    else fst st)
           in (children_push m parentKey i, snd st))
      | None \<Rightarrow> (fst st, snd st @ [i]))"

definition group_issues :: "issue list \<Rightarrow> story_map \<times> issue list" where
  "group_issues jiraIssuesInfo = foldl forEach_issue ([], []) jiraIssuesInfo"

text \<open>
  Lines 171-188. Every callback awaits the children of its Story, keeps those whose key
  is not in \<^verbatim>\<open>committedIssueKeys\<close> and pushes them on the shared list, so the list is in
  the order in which the searches settle. When a search throws, \<^verbatim>\<open>Promise.all\<close> rejects
  and \<^verbatim>\<open>generateStructuredOutput\<close> throws.
\<close>

definition missingChildren :: "string list \<Rightarrow> issue list \<Rightarrow> issue list" where
  "missingChildren committedIssueKeys cs =
     filter (\<lambda>child. issue_key child \<notin> set committedIssueKeys) cs"

definition missing_children_phase ::
  "world \<Rightarrow> string \<Rightarrow> string list \<Rightarrow> string list \<Rightarrow> issue list settled" where
  "missing_children_phase w baseUrl storyKeys committedIssueKeys =
     (let order = completion_order w (search_url baseUrl) storyKeys;
          all = Promise_all w (search_url baseUrl) storyKeys
                  (\<lambda>storyKey. getStoryChildren w storyKey baseUrl)
      in \<lparr>requests = requests all, warnings = warnings all,
          result =
            (case result all of
               Inl e \<Rightarrow> Inl e
             | Inr _ \<Rightarrow>
                 Inr (concat (map (missingChildren committedIssueKeys)
                       (fulfilled (map (\<lambda>k. result (getStoryChildren w k baseUrl)) order)))))\<rparr>)"

record aggregation =
  storyMap :: story_map
  orphanIssues :: "issue list"
  missingChildIssues :: "issue list"

definition aggregate ::
  "world \<Rightarrow> issue list \<Rightarrow> string list \<Rightarrow> string \<Rightarrow> aggregation settled" where
  "aggregate w jiraIssuesInfo ticket_ids baseUrl =
     (let groups = group_issues jiraIssuesInfo;
          phase = missing_children_phase w baseUrl (map fst (fst groups)) (new_Set ticket_ids)
      in \<lparr>requests = requests phase, warnings = warnings phase,
          result =
            (case result phase of
               Inl e \<Rightarrow> Inl e
             | Inr missing \<Rightarrow>
                 Inr \<lparr>storyMap = fst groups, orphanIssues = snd groups,
                      missingChildIssues = missing\<rparr>)\<rparr>)"

section \<open>The report (lines 150-151 and 190-219)\<close>

abbreviation newline :: string where
  "newline \<equiv> [CHR 0x0A]"

definition getJiraLink :: "string \<Rightarrow> string \<Rightarrow> string" where
  "getJiraLink baseUrl issueKey =
     ''['' @ issueKey @ '']('' @ baseUrl @ ''/browse/'' @ issueKey @ '')''"

text \<open>The line that each of the three \<^verbatim>\<open>forEach\<close> loops appends for one issue.\<close>

definition bullet :: "string \<Rightarrow> string \<Rightarrow> issue \<Rightarrow> string" where
  "bullet baseUrl output i =
     output @ ''- '' @ getJiraLink baseUrl (issue_key i) @ '': ['' @ issue_type i @ ''] ''
       @ issue_title i @ newline"

text \<open>One round of the loop over \<^verbatim>\<open>storyMap\<close> (lines 192-200).\<close>

definition story_round :: "string \<Rightarrow> string \<Rightarrow> string \<times> story_group \<Rightarrow> string" where
  "story_round baseUrl output entry =
     (let data = snd entry;
          output1 = output @ ''#### Story '' @ getJiraLink baseUrl (parent_key (story data))
                      @ '': '' @ parent_title (story data) @ newline;
          output2 = foldl (bullet baseUrl) output1 (children data)
      in output2 @ newline)"

definition render :: "string \<Rightarrow> aggregation \<Rightarrow> string" where
  "render baseUrl a =
     (let output0 = ''### Related Jira Issues'' @ newline @ newline;
          output1 = foldl (story_round baseUrl) output0 (storyMap a);
          output2 =
            (if length (orphanIssues a) > 0
             then foldl (bullet baseUrl) (output1 @ ''#### Other Issues'' @ newline)
                    (orphanIssues a) @ newline
             else output1);
          output3 =
            (if length (missingChildIssues a) > 0
             then foldl (bullet baseUrl)
                    (output2 @ ''#### Missing Child Issues'' @ newline
                      @ ''The following child issues from related Stories are not included in this PR:''
                      @ newline @ newline)
                    (missingChildIssues a)
             else output2)
      in output3)"

definition generateStructuredOutput ::
  "world \<Rightarrow> issue list \<Rightarrow> string list \<Rightarrow> string \<Rightarrow> string settled" where
  "generateStructuredOutput w jiraIssuesInfo ticket_ids baseUrl =
     (let a = aggregate w jiraIssuesInfo ticket_ids baseUrl
      in \<lparr>requests = requests a, warnings = warnings a,
          result = (case result a of Inl e \<Rightarrow> Inl e | Inr agg \<Rightarrow> Inr (render baseUrl agg))\<rparr>)"

section \<open>The run (lines 67-141)\<close>

definition failure :: "string \<Rightarrow> outcome" where
  "failure message =
     \<lparr>setFailed = Some message, notices = [], console_warn = [], fetched = [],
      pulls_update = []\<rparr>"

definition no_tickets :: outcome where
  "no_tickets =
     \<lparr>setFailed = None, notices = [''No Jira ticket IDs found in commit messages''],
      console_warn = [], fetched = [], pulls_update = []\<rparr>"

text \<open>
  Lines 69-96: the inputs, the pull-request context and the commits. Either the run is
  over (\<open>Inl\<close>: an error was thrown and caught by line 138, or \<^verbatim>\<open>setFailed\<close> was called
  before a \<^verbatim>\<open>return\<close>), or it goes on with the pull number, the base URL, the pattern
  and the commit messages. (\<^verbatim>\<open>github.getOctokit(token)\<close> only builds the client.)
\<close>

definition run_context :: "world \<Rightarrow> outcome + nat \<times> string \<times> string \<times> string list" where
  "run_context w =
     (case core_getInput w ''github-token'' True of
        Inl e \<Rightarrow> Inl (failure e)
      | Inr token \<Rightarrow>
     (case core_getInput w ''jira-base-url'' True of
        Inl e \<Rightarrow> Inl (failure e)
      | Inr jiraBaseUrl \<Rightarrow>
     (case core_getInput w ''jira-email'' True of
        Inl e \<Rightarrow> Inl (failure e)
      | Inr jiraEmail \<Rightarrow>
     (case core_getInput w ''jira-api-token'' True of
        Inl e \<Rightarrow> Inl (failure e)
      | Inr jiraApiToken \<Rightarrow>
     (case core_getInput w ''jira-ticket-id-pattern'' False of
        Inl e \<Rightarrow> Inl (failure e)
      | Inr given \<Rightarrow>
     (let jiraTicketPattern = (if given = [] then ''RC-[^ ]*'' else given) in
     (case pull_request w of
        None \<Rightarrow> Inl (failure ''This action can only be run on pull request events'')
      | Some prNumber \<Rightarrow>
          if prNumber = 0
          then Inl (failure ''Could not get pull request number from context'')
          else
            (case listCommits w prNumber of
               Inl e \<Rightarrow> Inl (failure e)
             | Inr commits \<Rightarrow> Inr (prNumber, jiraBaseUrl, jiraTicketPattern, commits)))))))))"

text \<open>
  Lines 98-114, up to the extracted ticket ids: the run is over when the pattern does
  not compile (the SyntaxError is caught by line 138) and when no id was found.
\<close>

definition run_extract :: "world \<Rightarrow> outcome + nat \<times> string \<times> string list" where
  "run_extract w =
     (case run_context w of
        Inl finished \<Rightarrow> Inl finished
      | Inr (prNumber, jiraBaseUrl, jiraTicketPattern, commits) \<Rightarrow>
          (case ticketIds (RegExp_g w) jiraTicketPattern commits of
             Inl e \<Rightarrow> Inl (failure e)
           | Inr ids \<Rightarrow>
               if length ids = 0 then Inl no_tickets
               else Inr (prNumber, jiraBaseUrl, ids)))"

text \<open>\<^verbatim>\<open>jiraIssuesInfo.filter(Boolean)\<close>: \<^verbatim>\<open>null\<close> is dropped, an object is kept.\<close>

fun filter_Boolean :: "'a option list \<Rightarrow> 'a list" where
  "filter_Boolean [] = []"
| "filter_Boolean (None # xs) = filter_Boolean xs"
| "filter_Boolean (Some x # xs) = x # filter_Boolean xs"

text \<open>Lines 117-121.\<close>

definition jiraIssuesInfo :: "world \<Rightarrow> string \<Rightarrow> string list \<Rightarrow> issue option list settled" where
  "jiraIssuesInfo w jiraBaseUrl ids =
     Promise_all w (issue_url jiraBaseUrl) ids (\<lambda>pattern. getJiraIssueInfo w pattern jiraBaseUrl)"

text \<open>Lines 116-137, then the \<^verbatim>\<open>catch\<close> of line 138 for whatever was thrown.\<close>

definition run_report :: "world \<Rightarrow> nat \<Rightarrow> string \<Rightarrow> string list \<Rightarrow> outcome" where
  "run_report w prNumber jiraBaseUrl ids =
     (let infos = jiraIssuesInfo w jiraBaseUrl ids in
      (case result infos of
         Inl e \<Rightarrow>
           \<lparr>setFailed = Some e, notices = [], console_warn = warnings infos,
            fetched = requests infos, pulls_update = []\<rparr>
       | Inr found \<Rightarrow>
           (let out = generateStructuredOutput w (filter_Boolean found) ids jiraBaseUrl in
            (case result out of
               Inl e \<Rightarrow>
                 \<lparr>setFailed = Some e, notices = [],
                  console_warn = warnings infos @ warnings out,
                  fetched = requests infos @ requests out, pulls_update = []\<rparr>
             | Inr output \<Rightarrow>
                 \<lparr>setFailed = pulls_update_throws w prNumber output, notices = [],
                  console_warn = warnings infos @ warnings out,
                  fetched = requests infos @ requests out,
                  pulls_update = [(prNumber, output)]\<rparr>))))"

definition run :: "world \<Rightarrow> outcome" where
  "run w =
     (case run_extract w of
        Inl finished \<Rightarrow> finished
      | Inr (prNumber, jiraBaseUrl, ids) \<Rightarrow> run_report w prNumber jiraBaseUrl ids)"

section \<open>A concrete world for the instances\<close>

text \<open>
  The theorems below hold for every world. Their instances are computed in the
  following one. Its regular expressions are the patterns that are a non-empty run of
  letters, digits and hyphens, matched literally, optionally followed by \<^verbatim>\<open>[^ ]*\<close>
  (as in the default pattern \<^verbatim>\<open>RC-[^ ]*\<close>), which matches greedily up to the next space;
  every other pattern is refused, as JavaScript refuses \<^verbatim>\<open>(\<close> with a SyntaxError
  (whose message is the engine's; here it only quotes the pattern).
  A global \<^verbatim>\<open>match\<close> takes the leftmost match, goes on behind it, and is \<^verbatim>\<open>null\<close> when
  there is none.
\<close>

definition literal_char :: "char \<Rightarrow> bool" where
  "literal_char c =
     (c \<in> set ''ABCDEFGHIJKLMNOPQRSTUVWXYZabcdefghijklmnopqrstuvwxyz0123456789-'')"

fun scan :: "string \<Rightarrow> bool \<Rightarrow> nat \<Rightarrow> string \<Rightarrow> string list" where
  "scan lit tail skip [] = []"
| "scan lit tail (Suc n) (c # cs) = scan lit tail n cs"
| "scan lit tail 0 (c # cs) =
     (if take (length lit) (c # cs) = lit
      then (let m = lit @ (if tail
                           then takeWhile (\<lambda>x. x \<noteq> CHR '' '') (drop (length lit) (c # cs))
                           else [])
            in m # scan lit tail (length m - 1) cs)
      else scan lit tail 0 cs)"

definition demo_match :: "string \<Rightarrow> bool \<Rightarrow> string \<Rightarrow> string list option" where
  "demo_match lit tail message =
     (case scan lit tail 0 message of [] \<Rightarrow> None | m # ms \<Rightarrow> Some (m # ms))"

definition demo_RegExp :: "string \<Rightarrow> string + (string \<Rightarrow> string list option)" where
  "demo_RegExp pattern =
     (if pattern \<noteq> [] \<and> list_all literal_char pattern
      then Inr (demo_match pattern False)
      else if 5 < length pattern \<and> drop (length pattern - 5) pattern = ''[^ ]*''
              \<and> list_all literal_char (take (length pattern - 5) pattern)
      then Inr (demo_match (take (length pattern - 5) pattern) True)
      else Inl (''Invalid regular expression: /'' @ pattern @ ''/g''))"

definition demo_getInput :: "string \<Rightarrow> string \<Rightarrow> bool \<Rightarrow> string + string" where
  "demo_getInput pattern name required =
     (if name = ''github-token'' then Inr ''ghs-token''
      else if name = ''jira-base-url'' then Inr ''https://jira.test''
      else if name = ''jira-email'' then Inr ''dev@jira.test''
      else if name = ''jira-api-token'' then Inr ''api-token''
      else if name = ''jira-ticket-id-pattern'' then Inr pattern
      else if required then Inl (''Input required and not supplied: '' @ name)
      else Inr [])"

text \<open>
  \<^verbatim>\<open>RC-1\<close> is a Task of the Story \<^verbatim>\<open>RC-10\<close>, \<^verbatim>\<open>RC-2\<close> is a Bug with no parent,
  \<^verbatim>\<open>RC-4\<close> is a Sub-task whose parent \<^verbatim>\<open>RC-40\<close> is an Epic, \<^verbatim>\<open>RC-6\<close> is a Task of the
  Story \<^verbatim>\<open>RC-60\<close>, and every other lookup has a non-success status.
\<close>

definition demo_fetch_issue :: "string \<Rightarrow> issue_json fetch_result" where
  "demo_fetch_issue url =
     (if url = ''https://jira.test/rest/api/3/issue/RC-1''
      then Ok_Json \<lparr>ij_issuetype_name = ''Task'', ij_summary = ''Parse input'',
             ij_parent = Some \<lparr>pj_key = ''RC-10'', pj_issuetype_name = ''Story'',
                               pj_summary = ''Importer''\<rparr>\<rparr>
      else if url = ''https://jira.test/rest/api/3/issue/RC-2''
      then Ok_Json \<lparr>ij_issuetype_name = ''Bug'', ij_summary = ''Fix crash'', ij_parent = None\<rparr>
      else if url = ''https://jira.test/rest/api/3/issue/RC-4''
      then Ok_Json \<lparr>ij_issuetype_name = ''Sub-task'', ij_summary = ''Docs'',
             ij_parent = Some \<lparr>pj_key = ''RC-40'', pj_issuetype_name = ''Epic'',
                               pj_summary = ''Platform''\<rparr>\<rparr>
      else if url = ''https://jira.test/rest/api/3/issue/RC-6''
      then Ok_Json \<lparr>ij_issuetype_name = ''Task'', ij_summary = ''Export'',
             ij_parent = Some \<lparr>pj_key = ''RC-60'', pj_issuetype_name = ''Story'',
                               pj_summary = ''Exporter''\<rparr>\<rparr>
      else Not_Ok)"

text \<open>
  The children of \<^verbatim>\<open>RC-10\<close> are \<^verbatim>\<open>RC-1\<close>, \<^verbatim>\<open>RC-3\<close> and \<^verbatim>\<open>RC-5\<close>; the search for the
  children of \<^verbatim>\<open>RC-60\<close>, like every other search, has a non-success status.
\<close>

definition demo_fetch_search :: "string \<Rightarrow> child_json list fetch_result" where
  "demo_fetch_search url =
     (if url = ''https://jira.test/rest/api/3/search?jql=parent=RC-10''
      then Ok_Json
             [\<lparr>cj_key = ''RC-1'', cj_issuetype_name = ''Task'', cj_summary = ''Parse input''\<rparr>,
              \<lparr>cj_key = ''RC-3'', cj_issuetype_name = ''Task'', cj_summary = ''Validate''\<rparr>,
              \<lparr>cj_key = ''RC-5'', cj_issuetype_name = ''Task'', cj_summary = ''Report''\<rparr>]
      else Not_Ok)"

definition demo_world :: world where
  "demo_world =
     \<lparr>core_getInput = demo_getInput [],
      pull_request = Some 7,
      listCommits = (\<lambda>n. Inr [''RC-1 fix'', ''RC-2 also RC-1'', ''RC-5 wip'']),
      RegExp_g = demo_RegExp,
      fetch_issue = demo_fetch_issue,
      fetch_search = demo_fetch_search,
      latency = (\<lambda>url. 0),
      pulls_update_throws = (\<lambda>n body. None)\<rparr>"

text \<open>
  Variants of that world: the pull request has two commits, one for each Story; the
  lookup of \<^verbatim>\<open>RC-5\<close> cannot reach the tracker; the search for the children of \<^verbatim>\<open>RC-60\<close>
  cannot reach the tracker; the lookup of \<^verbatim>\<open>RC-5\<close>, and the search for the children of
  \<^verbatim>\<open>RC-60\<close>, is answered with status 200 and a body that is not JSON; the configured
  pattern is \<^verbatim>\<open>(\<close>, with the commits of the first world and with none; no commit
  message names a ticket.
\<close>

definition two_story_world :: world where
  "two_story_world = demo_world\<lparr>listCommits := (\<lambda>n. Inr [''RC-1 fix'', ''RC-6 export''])\<rparr>"

definition unreachable_world :: world where
  "unreachable_world =
     demo_world\<lparr>fetch_issue :=
       (\<lambda>url. if url = ''https://jira.test/rest/api/3/issue/RC-5''
              then Rejected ''connect ECONNREFUSED''
              else demo_fetch_issue url)\<rparr>"

definition search_unreachable_world :: world where
  "search_unreachable_world =
     two_story_world\<lparr>fetch_search :=
       (\<lambda>url. if url = ''https://jira.test/rest/api/3/search?jql=parent=RC-60''
              then Rejected ''connect ECONNREFUSED''
              else demo_fetch_search url)\<rparr>"

definition unusable_body_world :: world where
  "unusable_body_world =
     demo_world\<lparr>fetch_issue :=
       (\<lambda>url. if url = ''https://jira.test/rest/api/3/issue/RC-5''
              then Ok_Unusable ''invalid json response body at https://jira.test/rest/api/3/issue/RC-5 reason: Unexpected token < in JSON at position 0''
              else demo_fetch_issue url)\<rparr>"

definition search_unusable_world :: world where
  "search_unusable_world =
     two_story_world\<lparr>fetch_search :=
       (\<lambda>url. if url = ''https://jira.test/rest/api/3/search?jql=parent=RC-60''
              then Ok_Unusable ''invalid json response body at https://jira.test/rest/api/3/search?jql=parent=RC-60 reason: Unexpected token < in JSON at position 0''
              else demo_fetch_search url)\<rparr>"

definition bad_pattern_world :: world where
  "bad_pattern_world = demo_world\<lparr>core_getInput := demo_getInput ''(''\<rparr>"

definition bad_pattern_no_commit_world :: world where
  "bad_pattern_no_commit_world = bad_pattern_world\<lparr>listCommits := (\<lambda>n. Inr [])\<rparr>"

definition no_ticket_world :: world where
  "no_ticket_world = demo_world\<lparr>listCommits := (\<lambda>n. Inr [''initial commit'', ''typo''])\<rparr>"

text \<open>The issues that the lookups of \<^verbatim>\<open>RC-1\<close> and \<^verbatim>\<open>RC-2\<close> give in these worlds.\<close>

definition demo_story :: parent_ref where
  "demo_story = \<lparr>parent_key = ''RC-10'', parent_type = ''Story'', parent_title = ''Importer''\<rparr>"

definition demo_task :: issue where
  "demo_task =
     \<lparr>issue_key = ''RC-1'', issue_type = ''Task'', issue_title = ''Parse input'',
      issue_parent = Some demo_story\<rparr>"

definition demo_bug :: issue where
  "demo_bug =
     \<lparr>issue_key = ''RC-2'', issue_type = ''Bug'', issue_title = ''Fix crash'',
      issue_parent = None\<rparr>"

definition demo_missing :: issue where
  "demo_missing =
     \<lparr>issue_key = ''RC-3'', issue_type = ''Task'', issue_title = ''Validate'',
      issue_parent = None\<rparr>"

definition demo_aggregation :: aggregation where
  "demo_aggregation =
     \<lparr>storyMap = [(''RC-10'', \<lparr>story = demo_story, children = [demo_task]\<rparr>)],
      orphanIssues = [demo_bug],
      missingChildIssues = [demo_missing]\<rparr>"

section \<open>The properties, as the specification words them\<close>

text \<open>The key of the group that an issue belongs to: the key of its parent, if it has one.\<close>

definition group_key :: "issue \<Rightarrow> string option" where
  "group_key i = map_option parent_key (issue_parent i)"

text \<open>
  What the grouping of the issues \<open>xs\<close> has to be: one group for each parent key that
  occurs, holding the issues of that key in their order; the orphans are the issues with
  no parent, in their order; and the groups and the orphans together are the issues.
\<close>

definition grouped :: "issue list \<Rightarrow> story_map \<times> issue list \<Rightarrow> bool" where
  "grouped xs st =
     (distinct (map fst (fst st))
      \<and> set (map fst (fst st)) = {k. \<exists>i \<in> set xs. group_key i = Some k}
      \<and> (\<forall>(k, g) \<in> set (fst st). children g = filter (\<lambda>i. group_key i = Some k) xs)
      \<and> snd st = filter (\<lambda>i. issue_parent i = None) xs
      \<and> mset (concat (map (children \<circ> snd) (fst st))) + mset (snd st) = mset xs)"

text \<open>
  The report as section 4.5 of the specification describes it: the header, one block
  for each group (the line of the parent, one bullet for each child, a blank line), the
  block of the orphans if there is one, the block of the missing children if there is
  one. A section with no entry is the empty text.
\<close>

definition bullet_line :: "string \<Rightarrow> issue \<Rightarrow> string" where
  "bullet_line baseUrl i =
     ''- '' @ getJiraLink baseUrl (issue_key i) @ '': ['' @ issue_type i @ ''] ''
       @ issue_title i @ newline"

definition story_block :: "string \<Rightarrow> story_group \<Rightarrow> string" where
  "story_block baseUrl g =
     ''#### Story '' @ getJiraLink baseUrl (parent_key (story g)) @ '': ''
       @ parent_title (story g) @ newline
       @ concat (map (bullet_line baseUrl) (children g)) @ newline"

definition orphan_section :: "string \<Rightarrow> issue list \<Rightarrow> string" where
  "orphan_section baseUrl os =
     (if os = [] then []
      else ''#### Other Issues'' @ newline @ concat (map (bullet_line baseUrl) os) @ newline)"

definition missing_section :: "string \<Rightarrow> issue list \<Rightarrow> string" where
  "missing_section baseUrl ms =
     (if ms = [] then []
      else ''#### Missing Child Issues'' @ newline
        @ ''The following child issues from related Stories are not included in this PR:''
        @ newline @ newline @ concat (map (bullet_line baseUrl) ms))"

definition report :: "string \<Rightarrow> aggregation \<Rightarrow> string" where
  "report baseUrl a =
     ''### Related Jira Issues'' @ newline @ newline
       @ concat (map (\<lambda>entry. story_block baseUrl (snd entry)) (storyMap a))
       @ orphan_section baseUrl (orphanIssues a)
       @ missing_section baseUrl (missingChildIssues a)"

section \<open>Lemmas on the building blocks\<close>

subsection \<open>Sets in insertion order\<close>

lemma set_foldl_Set_add: "set (foldl Set_add acc xs) = set acc \<union> set xs"
  by (induction xs arbitrary: acc) (auto simp: Set_add_def)

lemma distinct_foldl_Set_add: "distinct acc \<Longrightarrow> distinct (foldl Set_add acc xs)"
  by (induction xs arbitrary: acc) (auto simp: Set_add_def)

lemma set_new_Set: "set (new_Set xs) = set xs"
  by (simp add: new_Set_def set_foldl_Set_add)

lemma distinct_new_Set: "distinct (new_Set xs)"
  by (simp add: new_Set_def distinct_foldl_Set_add)

lemma new_Set_Nil: "new_Set [] = []"
  by (simp add: new_Set_def)

subsection \<open>Extraction with a pattern that compiles, and with one that does not\<close>

lemma commits_map_compiled:
  "re pattern = Inr regex \<Longrightarrow>
     commits_map re pattern commits = Inr (map (matches_of regex) commits)"
  by (induction commits) (simp_all add: matches_of_def)

lemma ticketIds_compiled:
  "re pattern = Inr regex \<Longrightarrow>
     ticketIds re pattern commits = Inr (new_Set (concat (map (matches_of regex) commits)))"
  by (simp add: ticketIds_def commits_map_compiled)

lemma commits_map_invalid:
  "re pattern = Inl e \<Longrightarrow> commits \<noteq> [] \<Longrightarrow> commits_map re pattern commits = Inl e"
  by (cases commits) simp_all

lemma demo_default_pattern: "demo_RegExp ''RC-[^ ]*'' = Inr (demo_match ''RC-'' True)"
  by (simp add: demo_RegExp_def literal_char_def)

subsection \<open>The story map\<close>

lemma Map_set_fresh: "k \<notin> set (map fst m) \<Longrightarrow> Map_set m k v = m @ [(k, v)]"
  by (induction m) auto

lemma keys_children_push: "map fst (children_push m k i) = map fst m"
  by (induction m) auto

lemma mset_children_push:
  "k \<in> fst ` set m \<Longrightarrow>
     mset (concat (map (children \<circ> snd) (children_push m k i)))
       = mset (concat (map (children \<circ> snd) m)) + {#i#}"
proof (induction m)
  case Nil
  then show ?case by simp
next
  case (Cons a m)
  obtain k' g where a: "a = (k', g)" by (cases a)
  show ?case
  proof (cases "k' = k")
    case True
    with a show ?thesis by simp
  next
    case False
    with Cons.prems a have "k \<in> fst ` set m" by auto
    with Cons.IH False a show ?thesis by simp
  qed
qed

lemma set_children_push:
  "distinct (map fst m) \<Longrightarrow>
     set (children_push m k i)
       = (\<lambda>(k', g). (k', if k' = k then g\<lparr>children := children g @ [i]\<rparr> else g)) ` set m"
proof (induction m)
  case Nil
  then show ?case by simp
next
  case (Cons a m)
  obtain k' g where a: "a = (k', g)" by (cases a)
  show ?case
  proof (cases "k' = k")
    case True
    with Cons.prems a have "k \<notin> fst ` set m" by auto
    then have "(\<lambda>(k', g). (k', if k' = k then g\<lparr>children := children g @ [i]\<rparr> else g)) ` set m
                 = set m"
      by (force simp: image_iff)
    with True a show ?thesis by simp
  next
    case False
    with Cons a show ?thesis by simp
  qed
qed

lemma forEach_issue_orphan:
  "issue_parent i = None \<Longrightarrow> forEach_issue (m, os) i = (m, os @ [i])"
  by (simp add: forEach_issue_def)

lemma forEach_issue_known:
  "issue_parent i = Some p \<Longrightarrow> parent_key p \<in> set (map fst m) \<Longrightarrow>
     forEach_issue (m, os) i = (children_push m (parent_key p) i, os)"
  by (simp add: forEach_issue_def Map_has_def)

lemma forEach_issue_fresh:
  assumes "issue_parent i = Some p" and "parent_key p \<notin> set (map fst m)"
  shows "forEach_issue (m, os) i = (m @ [(parent_key p, \<lparr>story = p, children = [i]\<rparr>)], os)"
proof -
  have "children_push (m @ [(k, g)]) k i = m @ [(k, g\<lparr>children := children g @ [i]\<rparr>)]"
    if "k \<notin> set (map fst m)" for k g
    using that by (induction m) auto
  with assms show ?thesis
    by (simp add: forEach_issue_def Map_has_def Map_set_fresh Let_def)
qed

text \<open>Each call of the callback keeps the grouping: the loop invariant of lines 156-169.\<close>

lemma grouped_step:
  assumes "grouped xs st"
  shows "grouped (xs @ [x]) (forEach_issue st x)"
proof -
  obtain m os where st: "st = (m, os)" by (cases st)
  from assms st have d: "distinct (map fst m)"
    and ks: "set (map fst m) = {k. \<exists>i \<in> set xs. group_key i = Some k}"
    and ch: "\<forall>(k, g) \<in> set m. children g = filter (\<lambda>i. group_key i = Some k) xs"
    and os: "os = filter (\<lambda>i. issue_parent i = None) xs"
    and ms: "mset (concat (map (children \<circ> snd) m)) + mset os = mset xs"
    unfolding grouped_def by auto
  show ?thesis
  proof (cases "issue_parent x")
    case None
    then have gk: "group_key x = None" by (simp add: group_key_def)
    have "forEach_issue st x = (m, os @ [x])"
      using None st by (simp add: forEach_issue_orphan)
    then show ?thesis
      using d ks ch os ms None gk by (auto simp: grouped_def)
  next
    case (Some p)
    then have gk: "group_key x = Some (parent_key p)" by (simp add: group_key_def)
    show ?thesis
    proof (cases "parent_key p \<in> set (map fst m)")
      case True
      have fe: "forEach_issue st x = (children_push m (parent_key p) x, os)"
        using Some True st by (simp add: forEach_issue_known)
      have c1: "\<forall>(k, g) \<in> set (children_push m (parent_key p) x).
                  children g = filter (\<lambda>i. group_key i = Some k) (xs @ [x])"
        using ch gk by (auto simp: set_children_push[OF d])
      show ?thesis
        unfolding grouped_def fe
        using d ks os ms Some gk True c1
        by (auto simp: keys_children_push mset_children_push)
    next
      case False
      have fe: "forEach_issue st x = (m @ [(parent_key p, \<lparr>story = p, children = [x]\<rparr>)], os)"
        using Some False st by (simp add: forEach_issue_fresh)
      from False ks have nox: "filter (\<lambda>i. group_key i = Some (parent_key p)) xs = []"
        by (auto simp: filter_empty_conv)
      have c1: "\<forall>(k, g) \<in> set m. children g = filter (\<lambda>i. group_key i = Some k) (xs @ [x])"
        using ch gk False by (auto simp: rev_image_eqI)
      show ?thesis
        unfolding grouped_def fe
        using d ks os ms Some gk False c1 nox
        by auto
    qed
  qed
qed

lemma grouped_group_issues: "grouped xs (group_issues xs)"
proof (induction xs rule: rev_induct)
  case Nil
  show ?case by (simp add: grouped_def group_issues_def)
next
  case (snoc x xs)
  then show ?case
    using grouped_step[of xs "group_issues xs" x] by (simp add: group_issues_def)
qed

subsection \<open>Promise.all and the two tracker calls\<close>

lemma first_rejection_None: "(first_rejection rs = None) = (\<forall>e. Inl e \<notin> set rs)"
  by (induction rs rule: first_rejection.induct) auto

lemma set_fulfilled: "set (fulfilled rs) = {v. Inr v \<in> set rs}"
  by (induction rs rule: fulfilled.induct) auto

lemma set_completion_order: "set (completion_order w url keys) = set keys"
  by (simp add: completion_order_def)

lemma result_Promise_all:
  "result (Promise_all w url keys task) =
     (case first_rejection (map (\<lambda>k. result (task k)) (completion_order w url keys)) of
        Some e \<Rightarrow> Inl e
      | None \<Rightarrow> Inr (fulfilled (map (\<lambda>k. result (task k)) keys)))"
  by (simp add: Promise_all_def)

lemma warnings_Promise_all:
  "set (warnings (Promise_all w url keys task)) = (\<Union>k \<in> set keys. set (warnings (task k)))"
  by (simp add: Promise_all_def set_completion_order)

lemma Promise_all_no_rejection:
  assumes "\<forall>k \<in> set keys. \<forall>e. result (task k) \<noteq> Inl e"
  shows "result (Promise_all w url keys task) = Inr (fulfilled (map (\<lambda>k. result (task k)) keys))"
proof -
  from assms have "\<forall>e. Inl e \<notin> (\<lambda>k. result (task k)) ` set keys"
    by (metis imageE)
  then have "first_rejection (map (\<lambda>k. result (task k)) (completion_order w url keys)) = None"
    by (simp add: first_rejection_None set_completion_order)
  then show ?thesis by (simp add: result_Promise_all)
qed

lemma result_getStoryChildren:
  "result (getStoryChildren w k baseUrl) =
     (case fetch_search w (search_url baseUrl k) of
        Rejected e \<Rightarrow> Inl e
      | Not_Ok \<Rightarrow> Inr []
      | Ok_Unusable e \<Rightarrow> Inl e
      | Ok_Json issues \<Rightarrow> Inr (map child_of_json issues))"
  by (simp add: getStoryChildren_def split: fetch_result.splits)

lemma result_getJiraIssueInfo:
  "result (getJiraIssueInfo w k baseUrl) =
     (case fetch_issue w (issue_url baseUrl k) of
        Rejected e \<Rightarrow> Inl e
      | Not_Ok \<Rightarrow> Inr None
      | Ok_Unusable e \<Rightarrow> Inl e
      | Ok_Json data \<Rightarrow> Inr (Some (issue_of_json k data)))"
  by (simp add: getJiraIssueInfo_def split: fetch_result.splits)

subsection \<open>A call throws exactly in the two outcomes that throw\<close>

lemma getJiraIssueInfo_thrown:
  "thrown (fetch_issue w (issue_url baseUrl k)) = Some e \<Longrightarrow>
     result (getJiraIssueInfo w k baseUrl) = Inl e \<and> warnings (getJiraIssueInfo w k baseUrl) = []"
  by (cases "fetch_issue w (issue_url baseUrl k)") (simp_all add: getJiraIssueInfo_def)

lemma getJiraIssueInfo_not_thrown:
  "thrown (fetch_issue w (issue_url baseUrl k)) = None \<Longrightarrow>
     result (getJiraIssueInfo w k baseUrl) \<noteq> Inl e"
  by (cases "fetch_issue w (issue_url baseUrl k)") (simp_all add: getJiraIssueInfo_def)

lemma getJiraIssueInfo_Inl:
  "result (getJiraIssueInfo w k baseUrl) = Inl e \<Longrightarrow>
     thrown (fetch_issue w (issue_url baseUrl k)) = Some e"
  by (cases "fetch_issue w (issue_url baseUrl k)") (simp_all add: getJiraIssueInfo_def)

lemma requests_getJiraIssueInfo:
  "requests (getJiraIssueInfo w k baseUrl) = [issue_url baseUrl k]"
  by (cases "fetch_issue w (issue_url baseUrl k)") (simp_all add: getJiraIssueInfo_def)

lemma getStoryChildren_thrown:
  "thrown (fetch_search w (search_url baseUrl k)) = Some e \<Longrightarrow>
     result (getStoryChildren w k baseUrl) = Inl e \<and> warnings (getStoryChildren w k baseUrl) = []"
  by (cases "fetch_search w (search_url baseUrl k)") (simp_all add: getStoryChildren_def)

lemma getStoryChildren_not_thrown:
  "thrown (fetch_search w (search_url baseUrl k)) = None \<Longrightarrow>
     result (getStoryChildren w k baseUrl) \<noteq> Inl e"
  by (cases "fetch_search w (search_url baseUrl k)") (simp_all add: getStoryChildren_def)

lemma getStoryChildren_Inl:
  "result (getStoryChildren w k baseUrl) = Inl e \<Longrightarrow>
     thrown (fetch_search w (search_url baseUrl k)) = Some e"
  by (cases "fetch_search w (search_url baseUrl k)") (simp_all add: getStoryChildren_def)

text \<open>When a task throws, \<^verbatim>\<open>Promise.all\<close> rejects, with the error of one of the tasks.\<close>

lemma first_rejection_Some: "first_rejection rs = Some e \<Longrightarrow> Inl e \<in> set rs"
  by (induction rs rule: first_rejection.induct) auto

lemma Promise_all_rejection:
  assumes "k \<in> set keys" and "result (task k) = Inl e"
  shows "\<exists>k' e'. k' \<in> set keys \<and> result (task k') = Inl e'
           \<and> result (Promise_all w url keys task) = Inl e'"
proof -
  let ?rs = "map (\<lambda>k. result (task k)) (completion_order w url keys)"
  from assms have "Inl e \<in> set ?rs"
    by (simp add: set_completion_order) (metis imageI)
  then have "first_rejection ?rs \<noteq> None"
    by (simp only: first_rejection_None) blast
  then obtain e' where f: "first_rejection ?rs = Some e'" by auto
  from first_rejection_Some[OF f] obtain k' where "k' \<in> set keys" and "result (task k') = Inl e'"
    by (auto simp: set_completion_order)
  moreover from f have "result (Promise_all w url keys task) = Inl e'"
    by (simp add: result_Promise_all)
  ultimately show ?thesis by blast
qed

subsection \<open>The lookups of the run\<close>

lemma filter_Boolean_fulfilled:
  "(\<forall>k \<in> set ids. thrown (fetch_issue w (issue_url baseUrl k)) = None) \<Longrightarrow>
   filter_Boolean (fulfilled (map (\<lambda>k. result (getJiraIssueInfo w k baseUrl)) ids))
     = concat (map (\<lambda>k. case fetch_issue w (issue_url baseUrl k) of
                            Ok_Json data \<Rightarrow> [issue_of_json k data] | _ \<Rightarrow> []) ids)"
proof (induction ids)
  case Nil
  show ?case by simp
next
  case (Cons k ids)
  then have ih:
    "filter_Boolean (fulfilled (map (\<lambda>k. result (getJiraIssueInfo w k baseUrl)) ids))
       = concat (map (\<lambda>k. case fetch_issue w (issue_url baseUrl k) of
                            Ok_Json data \<Rightarrow> [issue_of_json k data] | _ \<Rightarrow> []) ids)"
    by simp
  from Cons.prems have nr: "thrown (fetch_issue w (issue_url baseUrl k)) = None" by simp
  show ?case
  proof (cases "fetch_issue w (issue_url baseUrl k)")
    case (Rejected e)
    with nr show ?thesis by simp
  next
    case Not_Ok
    with ih show ?thesis by (simp add: result_getJiraIssueInfo)
  next
    case (Ok_Unusable e)
    with nr show ?thesis by simp
  next
    case (Ok_Json data)
    with ih show ?thesis by (simp add: result_getJiraIssueInfo)
  qed
qed

lemma lookup_no_rejection:
  assumes "\<forall>k \<in> set ids. thrown (fetch_issue w (issue_url baseUrl k)) = None"
  shows "result (jiraIssuesInfo w baseUrl ids)
           = Inr (fulfilled (map (\<lambda>k. result (getJiraIssueInfo w k baseUrl)) ids))"
proof -
  have "\<forall>k \<in> set ids. \<forall>e. result (getJiraIssueInfo w k baseUrl) \<noteq> Inl e"
    using assms by (simp add: getJiraIssueInfo_not_thrown)
  then show ?thesis
    unfolding jiraIssuesInfo_def by (rule Promise_all_no_rejection)
qed

lemma lookup_rejection:
  assumes "k \<in> set ids" and "thrown (fetch_issue w (issue_url baseUrl k)) = Some e"
  shows "\<exists>k' e'. k' \<in> set ids \<and> thrown (fetch_issue w (issue_url baseUrl k')) = Some e'
           \<and> result (jiraIssuesInfo w baseUrl ids) = Inl e'"
proof -
  from assms(2) have "result (getJiraIssueInfo w k baseUrl) = Inl e"
    by (simp add: getJiraIssueInfo_thrown)
  from Promise_all_rejection[of k ids "\<lambda>k. getJiraIssueInfo w k baseUrl" e w "issue_url baseUrl",
         OF assms(1) this]
  obtain k' e' where "k' \<in> set ids" and "result (getJiraIssueInfo w k' baseUrl) = Inl e'"
    and "result (jiraIssuesInfo w baseUrl ids) = Inl e'"
    unfolding jiraIssuesInfo_def by blast
  then show ?thesis using getJiraIssueInfo_Inl by blast
qed

lemma requests_jiraIssuesInfo:
  "requests (jiraIssuesInfo w baseUrl ids) = map (issue_url baseUrl) ids"
  by (induction ids) (simp_all add: jiraIssuesInfo_def Promise_all_def requests_getJiraIssueInfo)

lemma lookup_warning:
  assumes "k \<in> set ids" and "fetch_issue w (issue_url baseUrl k) = Not_Ok"
  shows "(''Unable to fetch info for '' @ k) \<in> set (warnings (jiraIssuesInfo w baseUrl ids))"
proof -
  from assms(2)
  have "warnings (getJiraIssueInfo w k baseUrl) = [''Unable to fetch info for '' @ k]"
    by (simp add: getJiraIssueInfo_def)
  then have "(''Unable to fetch info for '' @ k) \<in> set (warnings (getJiraIssueInfo w k baseUrl))"
    by simp
  with assms(1) show ?thesis
    unfolding jiraIssuesInfo_def warnings_Promise_all by blast
qed

lemma setFailed_run_report:
  "result (jiraIssuesInfo w baseUrl ids) = Inr found \<Longrightarrow>
   setFailed (run_report w prNumber baseUrl ids) =
     (case result (generateStructuredOutput w (filter_Boolean found) ids baseUrl) of
        Inl e \<Rightarrow> Some e
      | Inr output \<Rightarrow> pulls_update_throws w prNumber output)"
  by (simp add: run_report_def Let_def split: sum.splits)

lemma run_report_lookups_throw:
  "result (jiraIssuesInfo w baseUrl ids) = Inl e \<Longrightarrow>
   run_report w prNumber baseUrl ids =
     \<lparr>setFailed = Some e, notices = [], console_warn = warnings (jiraIssuesInfo w baseUrl ids),
      fetched = requests (jiraIssuesInfo w baseUrl ids), pulls_update = []\<rparr>"
  by (simp add: run_report_def Let_def)

lemma run_report_output_throws:
  "result (jiraIssuesInfo w baseUrl ids) = Inr found \<Longrightarrow>
   result (generateStructuredOutput w (filter_Boolean found) ids baseUrl) = Inl e \<Longrightarrow>
   setFailed (run_report w prNumber baseUrl ids) = Some e
   \<and> pulls_update (run_report w prNumber baseUrl ids) = []"
  by (simp add: run_report_def Let_def)

lemma generateStructuredOutput_searches_throw:
  "result (missing_children_phase w baseUrl (map fst (fst (group_issues infos))) (new_Set ids))
     = Inl e \<Longrightarrow>
   result (generateStructuredOutput w infos ids baseUrl) = Inl e"
  by (simp add: generateStructuredOutput_def aggregate_def Let_def)

lemma run_is_run_report:
  "run_extract w = Inr (prNumber, baseUrl, ids) \<Longrightarrow> run w = run_report w prNumber baseUrl ids"
  by (simp add: run_def)

subsection \<open>The searches of the aggregation\<close>

lemma search_no_rejection:
  assumes "\<forall>k \<in> set storyKeys. thrown (fetch_search w (search_url baseUrl k)) = None"
  shows "\<forall>k \<in> set storyKeys. \<forall>e. result (getStoryChildren w k baseUrl) \<noteq> Inl e"
  using assms by (simp add: getStoryChildren_not_thrown)

lemma search_rejection:
  assumes "k \<in> set storyKeys" and "thrown (fetch_search w (search_url baseUrl k)) = Some e"
  shows "\<exists>k' e'. k' \<in> set storyKeys \<and> thrown (fetch_search w (search_url baseUrl k')) = Some e'
           \<and> result (missing_children_phase w baseUrl storyKeys committed) = Inl e'"
proof -
  from assms(2) have "result (getStoryChildren w k baseUrl) = Inl e"
    by (simp add: getStoryChildren_thrown)
  from Promise_all_rejection[of k storyKeys "\<lambda>k. getStoryChildren w k baseUrl" e w
         "search_url baseUrl", OF assms(1) this]
  obtain k' e' where "k' \<in> set storyKeys" and "result (getStoryChildren w k' baseUrl) = Inl e'"
    and "result (Promise_all w (search_url baseUrl) storyKeys
           (\<lambda>k. getStoryChildren w k baseUrl)) = Inl e'"
    by blast
  moreover from this(3)
  have "result (missing_children_phase w baseUrl storyKeys committed) = Inl e'"
    by (simp add: missing_children_phase_def Let_def)
  ultimately show ?thesis using getStoryChildren_Inl by blast
qed

lemma fulfilled_children:
  "(\<forall>k \<in> set ks. thrown (fetch_search w (search_url baseUrl k)) = None) \<Longrightarrow>
   concat (map (missingChildren committed)
      (fulfilled (map (\<lambda>k. result (getStoryChildren w k baseUrl)) ks)))
     = concat (map (\<lambda>k. case fetch_search w (search_url baseUrl k) of
                            Ok_Json issues \<Rightarrow> missingChildren committed (map child_of_json issues)
                          | _ \<Rightarrow> []) ks)"
proof (induction ks)
  case Nil
  show ?case by simp
next
  case (Cons k ks)
  then have ih:
    "concat (map (missingChildren committed)
        (fulfilled (map (\<lambda>k. result (getStoryChildren w k baseUrl)) ks)))
       = concat (map (\<lambda>k. case fetch_search w (search_url baseUrl k) of
                            Ok_Json issues \<Rightarrow> missingChildren committed (map child_of_json issues)
                          | _ \<Rightarrow> []) ks)"
    by simp
  from Cons.prems have nr: "thrown (fetch_search w (search_url baseUrl k)) = None" by simp
  show ?case
  proof (cases "fetch_search w (search_url baseUrl k)")
    case (Rejected e)
    with nr show ?thesis by simp
  next
    case Not_Ok
    moreover have "missingChildren committed [] = []" by (simp add: missingChildren_def)
    ultimately show ?thesis using ih by (simp add: result_getStoryChildren)
  next
    case (Ok_Unusable e)
    with nr show ?thesis by simp
  next
    case (Ok_Json issues)
    with ih show ?thesis by (simp add: result_getStoryChildren)
  qed
qed

lemma set_concat_map_member: "k \<in> set ks \<Longrightarrow> set (f k) \<subseteq> set (concat (map f ks))"
  by auto

lemma result_missing_children_phase_eq:
  "result (missing_children_phase w baseUrl keys committed) =
     (case result (Promise_all w (search_url baseUrl) keys (\<lambda>k. getStoryChildren w k baseUrl)) of
        Inl e \<Rightarrow> Inl e
      | Inr vs \<Rightarrow> Inr (concat (map (missingChildren committed)
           (fulfilled (map (\<lambda>k. result (getStoryChildren w k baseUrl))
              (completion_order w (search_url baseUrl) keys))))))"
  by (simp add: missing_children_phase_def Let_def)

lemma warnings_missing_children_phase:
  "warnings (missing_children_phase w baseUrl keys committed)
     = warnings (Promise_all w (search_url baseUrl) keys (\<lambda>k. getStoryChildren w k baseUrl))"
  by (simp add: missing_children_phase_def Let_def)

lemma search_warning:
  assumes "k \<in> set keys" and "fetch_search w (search_url baseUrl k) = Not_Ok"
  shows "(''Unable to fetch children for '' @ k)
           \<in> set (warnings (missing_children_phase w baseUrl keys committed))"
proof -
  from assms(2)
  have "warnings (getStoryChildren w k baseUrl) = [''Unable to fetch children for '' @ k]"
    by (simp add: getStoryChildren_def)
  then have "(''Unable to fetch children for '' @ k)
               \<in> set (warnings (getStoryChildren w k baseUrl))"
    by simp
  with assms(1) show ?thesis
    unfolding warnings_missing_children_phase warnings_Promise_all by blast
qed

lemma result_missing_children_phase:
  assumes "result (missing_children_phase w baseUrl keys committed) = Inr missing"
  shows "missing = concat (map (missingChildren committed)
           (fulfilled (map (\<lambda>k. result (getStoryChildren w k baseUrl))
              (completion_order w (search_url baseUrl) keys))))"
  using assms by (simp add: missing_children_phase_def Let_def split: sum.splits)

text \<open>Where a missing child comes from: a successful search for one of the keys.\<close>

lemma missing_child_origin:
  assumes "result (missing_children_phase w baseUrl keys committed) = Inr missing"
    and "c \<in> set missing"
  shows "\<exists>k issues. k \<in> set keys \<and> fetch_search w (search_url baseUrl k) = Ok_Json issues
           \<and> c \<in> set (map child_of_json issues) \<and> issue_key c \<notin> set committed"
proof -
  from assms(2) result_missing_children_phase[OF assms(1)]
  obtain cs where cs: "cs \<in> set (fulfilled (map (\<lambda>k. result (getStoryChildren w k baseUrl))
              (completion_order w (search_url baseUrl) keys)))"
    and c: "c \<in> set (missingChildren committed cs)"
    by auto
  from cs obtain k where k: "k \<in> set keys"
    and r: "result (getStoryChildren w k baseUrl) = Inr cs"
    by (auto simp: set_fulfilled set_completion_order)
  from c have c1: "c \<in> set cs" and c2: "issue_key c \<notin> set committed"
    by (auto simp: missingChildren_def)
  from r c1 obtain issues where "fetch_search w (search_url baseUrl k) = Ok_Json issues"
    and "cs = map child_of_json issues"
    by (auto simp: result_getStoryChildren split: fetch_result.splits)
  with k c1 c2 show ?thesis by blast
qed

lemma result_aggregate:
  assumes "result (aggregate w infos ids baseUrl) = Inr a"
  shows "storyMap a = fst (group_issues infos)"
    and "orphanIssues a = snd (group_issues infos)"
    and "result (missing_children_phase w baseUrl (map fst (fst (group_issues infos)))
           (new_Set ids)) = Inr (missingChildIssues a)"
  using assms by (auto simp: aggregate_def Let_def split: sum.splits)

subsection \<open>The report\<close>

lemma foldl_bullet:
  "foldl (bullet baseUrl) out xs = out @ concat (map (bullet_line baseUrl) xs)"
  by (induction xs arbitrary: out) (simp_all add: bullet_def bullet_line_def)

lemma story_round_block:
  "story_round baseUrl out entry = out @ story_block baseUrl (snd entry)"
  by (simp add: story_round_def story_block_def foldl_bullet Let_def)

lemma foldl_story_round:
  "foldl (story_round baseUrl) out m
     = out @ concat (map (\<lambda>entry. story_block baseUrl (snd entry)) m)"
  by (induction m arbitrary: out) (simp_all add: story_round_block)

lemma render_report: "render baseUrl a = report baseUrl a"
  by (simp add: render_def report_def orphan_section_def missing_section_def foldl_bullet
      foldl_story_round Let_def)

lemma result_generateStructuredOutput:
  "result (aggregate w infos ids baseUrl) = Inr a \<Longrightarrow>
     result (generateStructuredOutput w infos ids baseUrl) = Inr (render baseUrl a)"
  by (simp add: generateStructuredOutput_def Let_def)

subsection \<open>The concrete worlds\<close>

lemma demo_aggregate:
  "result (aggregate demo_world [demo_task, demo_bug] [''RC-1'', ''RC-2'', ''RC-5'']
     ''https://jira.test'') = Inr demo_aggregation"
  by code_simp

lemma demo_run_extract:
  "run_extract demo_world = Inr (7, ''https://jira.test'', [''RC-1'', ''RC-2'', ''RC-5''])"
  by code_simp

lemma demo_jiraIssuesInfo:
  "result (jiraIssuesInfo demo_world ''https://jira.test'' [''RC-1'', ''RC-2'', ''RC-5''])
     = Inr [Some demo_task, Some demo_bug, None]"
  by code_simp

lemma demo_lookups_not_thrown:
  "\<forall>k \<in> set [''RC-1'', ''RC-2'', ''RC-5''].
     thrown (fetch_issue demo_world (issue_url ''https://jira.test'' k)) = None"
  by (simp add: demo_world_def demo_fetch_issue_def issue_url_def)

lemma demo_searches_not_thrown:
  "\<forall>k \<in> set [''RC-10'', ''RC-60''].
     thrown (fetch_search two_story_world (search_url ''https://jira.test'' k)) = None"
  by (simp add: two_story_world_def demo_world_def demo_fetch_search_def search_url_def)

section \<open>The claims\<close>

text \<open>
  C1. The missing-child list of \<^verbatim>\<open>generateStructuredOutput\<close> holds an issue only if the
  tracker returned it as a child of a key of the story map, that is, of the parent of one
  of the fetched issues, and only if its key is not among the ticket ids extracted from
  the commits.
\<close>

theorem missing_children_only_of_grouped_parents:
  assumes "result (aggregate w infos ids baseUrl) = Inr a"
    and "c \<in> set (missingChildIssues a)"
  shows "\<exists>i p issues. i \<in> set infos \<and> issue_parent i = Some p
           \<and> parent_key p \<in> set (map fst (storyMap a))
           \<and> fetch_search w (search_url baseUrl (parent_key p)) = Ok_Json issues
           \<and> c \<in> set (map child_of_json issues)
           \<and> issue_key c \<notin> set ids"
proof -
  from missing_child_origin[OF result_aggregate(3)[OF assms(1)] assms(2)]
  obtain k issues where k: "k \<in> set (map fst (fst (group_issues infos)))"
    and f: "fetch_search w (search_url baseUrl k) = Ok_Json issues"
    and c: "c \<in> set (map child_of_json issues)" and n: "issue_key c \<notin> set ids"
    by (auto simp: set_new_Set)
  have "set (map fst (fst (group_issues infos))) = {k. \<exists>i \<in> set infos. group_key i = Some k}"
    using grouped_group_issues[of infos] by (simp add: grouped_def)
  with k obtain i where i: "i \<in> set infos" and g: "group_key i = Some k" by auto
  from g obtain p where p: "issue_parent i = Some p" and pk: "parent_key p = k"
    by (auto simp: group_key_def)
  show ?thesis
    using i p pk k f c n result_aggregate(1)[OF assms(1)] by auto
qed

theorem missing_children_only_of_grouped_parents_witness:
  "result (aggregate demo_world [demo_task, demo_bug] [''RC-1'', ''RC-2'', ''RC-5'']
     ''https://jira.test'') = Inr demo_aggregation
   \<and> demo_missing \<in> set (missingChildIssues demo_aggregation)
   \<and> (\<exists>i p issues. i \<in> set [demo_task, demo_bug] \<and> issue_parent i = Some p
         \<and> parent_key p \<in> set (map fst (storyMap demo_aggregation))
         \<and> fetch_search demo_world (search_url ''https://jira.test'' (parent_key p))
             = Ok_Json issues
         \<and> demo_missing \<in> set (map child_of_json issues)
         \<and> issue_key demo_missing \<notin> set [''RC-1'', ''RC-2'', ''RC-5''])"
proof -
  have m: "demo_missing \<in> set (missingChildIssues demo_aggregation)"
    by (simp add: demo_aggregation_def)
  from missing_children_only_of_grouped_parents [OF demo_aggregate m] demo_aggregate m
  show ?thesis by blast
qed

text \<open>
  C2. The grouping of lines 156-169 is a partition of the fetched issues: the children
  lists of the groups and the orphan list together hold every issue once; the orphans
  are the issues with no parent, the children of the group of a key are the issues whose
  parent has that key, both in the order of the input, and no key has two groups. An
  issue built by \<^verbatim>\<open>getJiraIssueInfo\<close> has a parent exactly when the tracker's answer
  has one whose type is \<^verbatim>\<open>"Story"\<close>. The aggregation returns this grouping.
\<close>

theorem grouping_is_partition:
  "mset (concat (map (children \<circ> snd) (fst (group_issues infos))))
      + mset (snd (group_issues infos)) = mset infos
   \<and> snd (group_issues infos) = filter (\<lambda>i. issue_parent i = None) infos
   \<and> distinct (map fst (fst (group_issues infos)))
   \<and> set (map fst (fst (group_issues infos))) = {k. \<exists>i \<in> set infos. group_key i = Some k}
   \<and> (\<forall>(k, g) \<in> set (fst (group_issues infos)).
         children g = filter (\<lambda>i. group_key i = Some k) infos)
   \<and> (issue_parent (issue_of_json issueKey data) \<noteq> None)
       = (\<exists>p. ij_parent data = Some p \<and> pj_issuetype_name p = ''Story'')
   \<and> (result (aggregate w infos ids baseUrl) = Inr a \<longrightarrow>
         storyMap a = fst (group_issues infos) \<and> orphanIssues a = snd (group_issues infos))"
proof -
  have g: "grouped infos (group_issues infos)" by (rule grouped_group_issues)
  have p: "(issue_parent (issue_of_json issueKey data) \<noteq> None)
       = (\<exists>p. ij_parent data = Some p \<and> pj_issuetype_name p = ''Story'')"
    by (cases "ij_parent data") (simp_all add: issue_of_json_def)
  have r: "result (aggregate w infos ids baseUrl) = Inr a \<longrightarrow>
         storyMap a = fst (group_issues infos) \<and> orphanIssues a = snd (group_issues infos)"
    by (simp add: result_aggregate)
  from g p r show ?thesis unfolding grouped_def by blast
qed

theorem grouping_is_partition_witness:
  "(''RC-10'', \<lparr>story = demo_story, children = [demo_task]\<rparr>)
      \<in> set (fst (group_issues [demo_task, demo_bug]))
   \<and> filter (\<lambda>i. group_key i = Some ''RC-10'') [demo_task, demo_bug] = [demo_task]
   \<and> snd (group_issues [demo_task, demo_bug]) = [demo_bug]
   \<and> result (aggregate demo_world [demo_task, demo_bug] [''RC-1'', ''RC-2'', ''RC-5'']
        ''https://jira.test'') = Inr demo_aggregation
   \<and> storyMap demo_aggregation = fst (group_issues [demo_task, demo_bug])
   \<and> orphanIssues demo_aggregation = snd (group_issues [demo_task, demo_bug])"
proof -
  have e: "group_issues [demo_task, demo_bug]
             = ([(''RC-10'', \<lparr>story = demo_story, children = [demo_task]\<rparr>)], [demo_bug])"
    by code_simp
  have f: "filter (\<lambda>i. group_key i = Some ''RC-10'') [demo_task, demo_bug] = [demo_task]"
    by code_simp
  from grouping_is_partition [of "[demo_task, demo_bug]" _ _ demo_world
         "[''RC-1'', ''RC-2'', ''RC-5'']" "''https://jira.test''" demo_aggregation]
       demo_aggregate
  have "storyMap demo_aggregation = fst (group_issues [demo_task, demo_bug])
        \<and> orphanIssues demo_aggregation = snd (group_issues [demo_task, demo_bug])"
    by blast
  with e f demo_aggregate show ?thesis by simp
qed

text \<open>
  C3. With a pattern that compiles, the extracted ticket ids are, as a set, the union
  over the commit messages of the global matches of the pattern in the message, and no id
  occurs twice; they are none when no message has a match. For no commit they are none
  with any pattern.
\<close>

theorem ticketIds_deduplicated_union:
  "(re pattern = Inr regex \<longrightarrow>
      (\<exists>ids. ticketIds re pattern commits = Inr ids \<and> distinct ids
         \<and> set ids = (\<Union>message \<in> set commits. set (matches_of regex message))
         \<and> ((\<forall>message \<in> set commits. regex message = None) \<longrightarrow> ids = [])))
   \<and> ticketIds re pattern [] = Inr []"
proof (intro conjI impI)
  assume compiled: "re pattern = Inr regex"
  let ?ids = "new_Set (concat (map (matches_of regex) commits))"
  have eq: "ticketIds re pattern commits = Inr ?ids"
    using compiled by (rule ticketIds_compiled)
  have un: "set ?ids = (\<Union>message \<in> set commits. set (matches_of regex message))"
    by (simp add: set_new_Set)
  have none: "(\<forall>message \<in> set commits. regex message = None) \<longrightarrow> ?ids = []"
  proof
    assume "\<forall>message \<in> set commits. regex message = None"
    then have "set ?ids = {}"
      by (simp add: set_new_Set matches_of_def)
    then show "?ids = []" by simp
  qed
  from eq un none distinct_new_Set
  show "\<exists>ids. ticketIds re pattern commits = Inr ids \<and> distinct ids
         \<and> set ids = (\<Union>message \<in> set commits. set (matches_of regex message))
         \<and> ((\<forall>message \<in> set commits. regex message = None) \<longrightarrow> ids = [])"
    by blast
next
  show "ticketIds re pattern [] = Inr []"
    by (simp add: ticketIds_def new_Set_Nil)
qed

theorem ticketIds_deduplicated_union_witness:
  "demo_RegExp ''RC-[^ ]*'' = Inr (demo_match ''RC-'' True)
   \<and> (\<exists>ids. ticketIds demo_RegExp ''RC-[^ ]*'' [''RC-1 fix'', ''RC-2 also RC-1''] = Inr ids
         \<and> distinct ids \<and> set ids = {''RC-1'', ''RC-2''})
   \<and> demo_match ''RC-'' True ''initial commit'' = None
   \<and> ticketIds demo_RegExp ''RC-[^ ]*'' [''initial commit''] = Inr []"
proof -
  have m: "(\<Union>message \<in> set [''RC-1 fix'', ''RC-2 also RC-1''].
              set (matches_of (demo_match ''RC-'' True) message)) = {''RC-1'', ''RC-2''}"
    by (auto simp: matches_of_def demo_match_def)
  have n: "demo_match ''RC-'' True ''initial commit'' = None"
    by (simp add: demo_match_def)
  from ticketIds_deduplicated_union [of demo_RegExp "''RC-[^ ]*''" "demo_match ''RC-'' True"
         "[''RC-1 fix'', ''RC-2 also RC-1'']"] demo_default_pattern m
  have a: "\<exists>ids. ticketIds demo_RegExp ''RC-[^ ]*'' [''RC-1 fix'', ''RC-2 also RC-1''] = Inr ids
         \<and> distinct ids \<and> set ids = {''RC-1'', ''RC-2''}"
    by auto
  from ticketIds_deduplicated_union [of demo_RegExp "''RC-[^ ]*''" "demo_match ''RC-'' True"
         "[''initial commit'']"] demo_default_pattern n
  have b: "ticketIds demo_RegExp ''RC-[^ ]*'' [''initial commit''] = Inr []"
    by auto
  from demo_default_pattern a n b show ?thesis by blast
qed

text \<open>
  C4, as stated, fails: a lookup that cannot reach the tracker writes no warning and
  gives no absent value; \<^verbatim>\<open>fetch\<close> throws, nothing between the \<^verbatim>\<open>await\<close> of line 6 and
  the \<^verbatim>\<open>catch\<close> of line 138 handles the error, and the run ends with \<^verbatim>\<open>setFailed\<close> and
  no description update. Here the lookup of \<^verbatim>\<open>RC-5\<close> is refused.
\<close>

theorem lookup_unreachable_counterexample:
  "fetch_issue unreachable_world (issue_url ''https://jira.test'' ''RC-5'')
     = Rejected ''connect ECONNREFUSED''
   \<and> run_extract unreachable_world
       = Inr (7, ''https://jira.test'', [''RC-1'', ''RC-2'', ''RC-5''])
   \<and> getJiraIssueInfo unreachable_world ''RC-5'' ''https://jira.test'' =
        \<lparr>requests = [''https://jira.test/rest/api/3/issue/RC-5''], warnings = [],
         result = Inl ''connect ECONNREFUSED''\<rparr>
   \<and> run unreachable_world =
        \<lparr>setFailed = Some ''connect ECONNREFUSED'', notices = [], console_warn = [],
         fetched = [''https://jira.test/rest/api/3/issue/RC-1'',
                    ''https://jira.test/rest/api/3/issue/RC-2'',
                    ''https://jira.test/rest/api/3/issue/RC-5''],
         pulls_update = []\<rparr>"
  by code_simp

text \<open>
  C4, amended. A lookup that the tracker answers with a non-success status gives the
  absent value and a warning. When no lookup throws (none is refused at the transport
  level and none has a success status with a body the code cannot use), the lookups do
  not throw; the issues handed to the aggregation are exactly those of the lookups with
  a success status, in the order of the ids; and the run can then fail only by what
  \<^verbatim>\<open>generateStructuredOutput\<close> or the description update throws. A lookup that throws
  writes no warning and gives no value: the run then fails with the message of a lookup
  that threw, after all the lookups were requested, and the description is not updated.
\<close>

theorem lookup_not_ok_is_dropped:
  "((\<forall>k \<in> set ids. thrown (fetch_issue w (issue_url baseUrl k)) = None) \<longrightarrow>
      (\<exists>found. result (jiraIssuesInfo w baseUrl ids) = Inr found
         \<and> filter_Boolean found =
             concat (map (\<lambda>k. case fetch_issue w (issue_url baseUrl k) of
                                Ok_Json data \<Rightarrow> [issue_of_json k data] | _ \<Rightarrow> []) ids)
         \<and> (\<forall>k \<in> set ids. fetch_issue w (issue_url baseUrl k) = Not_Ok \<longrightarrow>
               result (getJiraIssueInfo w k baseUrl) = Inr None
               \<and> (''Unable to fetch info for '' @ k)
                    \<in> set (warnings (jiraIssuesInfo w baseUrl ids)))
         \<and> setFailed (run_report w prNumber baseUrl ids) =
             (case result (generateStructuredOutput w (filter_Boolean found) ids baseUrl) of
                Inl e \<Rightarrow> Some e
              | Inr output \<Rightarrow> pulls_update_throws w prNumber output)))
   \<and> (k \<in> set ids \<and> thrown (fetch_issue w (issue_url baseUrl k)) = Some e \<longrightarrow>
        result (getJiraIssueInfo w k baseUrl) = Inl e
        \<and> warnings (getJiraIssueInfo w k baseUrl) = []
        \<and> (\<exists>k' e'. k' \<in> set ids \<and> thrown (fetch_issue w (issue_url baseUrl k')) = Some e'
              \<and> setFailed (run_report w prNumber baseUrl ids) = Some e'
              \<and> fetched (run_report w prNumber baseUrl ids) = map (issue_url baseUrl) ids
              \<and> pulls_update (run_report w prNumber baseUrl ids) = []))
   \<and> (run_extract w = Inr (prNumber, baseUrl, ids) \<longrightarrow>
        run w = run_report w prNumber baseUrl ids)"
proof (intro conjI impI)
  assume none: "\<forall>k \<in> set ids. thrown (fetch_issue w (issue_url baseUrl k)) = None"
  show "\<exists>found. result (jiraIssuesInfo w baseUrl ids) = Inr found
         \<and> filter_Boolean found =
             concat (map (\<lambda>k. case fetch_issue w (issue_url baseUrl k) of
                                Ok_Json data \<Rightarrow> [issue_of_json k data] | _ \<Rightarrow> []) ids)
         \<and> (\<forall>k \<in> set ids. fetch_issue w (issue_url baseUrl k) = Not_Ok \<longrightarrow>
               result (getJiraIssueInfo w k baseUrl) = Inr None
               \<and> (''Unable to fetch info for '' @ k)
                    \<in> set (warnings (jiraIssuesInfo w baseUrl ids)))
         \<and> setFailed (run_report w prNumber baseUrl ids) =
             (case result (generateStructuredOutput w (filter_Boolean found) ids baseUrl) of
                Inl e \<Rightarrow> Some e
              | Inr output \<Rightarrow> pulls_update_throws w prNumber output)"
  proof (intro exI conjI)
    show r: "result (jiraIssuesInfo w baseUrl ids)
             = Inr (fulfilled (map (\<lambda>k. result (getJiraIssueInfo w k baseUrl)) ids))"
      using none by (rule lookup_no_rejection)
    show "filter_Boolean (fulfilled (map (\<lambda>k. result (getJiraIssueInfo w k baseUrl)) ids)) =
           concat (map (\<lambda>k. case fetch_issue w (issue_url baseUrl k) of
                              Ok_Json data \<Rightarrow> [issue_of_json k data] | _ \<Rightarrow> []) ids)"
      using none by (rule filter_Boolean_fulfilled)
    show "\<forall>k \<in> set ids. fetch_issue w (issue_url baseUrl k) = Not_Ok \<longrightarrow>
             result (getJiraIssueInfo w k baseUrl) = Inr None
             \<and> (''Unable to fetch info for '' @ k)
                  \<in> set (warnings (jiraIssuesInfo w baseUrl ids))"
    proof (intro ballI impI conjI)
      fix k assume k: "k \<in> set ids" and n: "fetch_issue w (issue_url baseUrl k) = Not_Ok"
      from n show "result (getJiraIssueInfo w k baseUrl) = Inr None"
        by (simp add: result_getJiraIssueInfo)
      from k n
      show "(''Unable to fetch info for '' @ k) \<in> set (warnings (jiraIssuesInfo w baseUrl ids))"
        by (rule lookup_warning)
    qed
    show "setFailed (run_report w prNumber baseUrl ids) =
           (case result (generateStructuredOutput w
                    (filter_Boolean (fulfilled (map (\<lambda>k. result (getJiraIssueInfo w k baseUrl)) ids)))
                    ids baseUrl) of
              Inl e \<Rightarrow> Some e
            | Inr output \<Rightarrow> pulls_update_throws w prNumber output)"
      using r by (rule setFailed_run_report)
  qed
next
  assume "k \<in> set ids \<and> thrown (fetch_issue w (issue_url baseUrl k)) = Some e"
  then show "result (getJiraIssueInfo w k baseUrl) = Inl e"
    by (simp add: getJiraIssueInfo_thrown)
next
  assume "k \<in> set ids \<and> thrown (fetch_issue w (issue_url baseUrl k)) = Some e"
  then show "warnings (getJiraIssueInfo w k baseUrl) = []"
    by (simp add: getJiraIssueInfo_thrown)
next
  assume "k \<in> set ids \<and> thrown (fetch_issue w (issue_url baseUrl k)) = Some e"
  then have "k \<in> set ids" and "thrown (fetch_issue w (issue_url baseUrl k)) = Some e"
    by simp_all
  from lookup_rejection[OF this]
  obtain k' e' where k': "k' \<in> set ids"
    and t: "thrown (fetch_issue w (issue_url baseUrl k')) = Some e'"
    and r: "result (jiraIssuesInfo w baseUrl ids) = Inl e'"
    by blast
  from run_report_lookups_throw[OF r, of prNumber]
  have "setFailed (run_report w prNumber baseUrl ids) = Some e'"
    and "fetched (run_report w prNumber baseUrl ids) = map (issue_url baseUrl) ids"
    and "pulls_update (run_report w prNumber baseUrl ids) = []"
    by (simp_all add: requests_jiraIssuesInfo)
  with k' t
  show "\<exists>k' e'. k' \<in> set ids \<and> thrown (fetch_issue w (issue_url baseUrl k')) = Some e'
          \<and> setFailed (run_report w prNumber baseUrl ids) = Some e'
          \<and> fetched (run_report w prNumber baseUrl ids) = map (issue_url baseUrl) ids
          \<and> pulls_update (run_report w prNumber baseUrl ids) = []"
    by blast
next
  assume "run_extract w = Inr (prNumber, baseUrl, ids)"
  then show "run w = run_report w prNumber baseUrl ids"
    by (rule run_is_run_report)
qed

theorem lookup_not_ok_is_dropped_witness:
  "fetch_issue demo_world (issue_url ''https://jira.test'' ''RC-5'') = Not_Ok
   \<and> (\<exists>found. result (jiraIssuesInfo demo_world ''https://jira.test''
                  [''RC-1'', ''RC-2'', ''RC-5'']) = Inr found
         \<and> filter_Boolean found = [demo_task, demo_bug])
   \<and> ''Unable to fetch info for RC-5''
        \<in> set (warnings (jiraIssuesInfo demo_world ''https://jira.test''
                  [''RC-1'', ''RC-2'', ''RC-5'']))
   \<and> setFailed (run_report demo_world 7 ''https://jira.test'' [''RC-1'', ''RC-2'', ''RC-5''])
       = None
   \<and> run demo_world = run_report demo_world 7 ''https://jira.test'' [''RC-1'', ''RC-2'', ''RC-5'']
   \<and> thrown (fetch_issue unreachable_world (issue_url ''https://jira.test'' ''RC-5''))
       = Some ''connect ECONNREFUSED''
   \<and> result (getJiraIssueInfo unreachable_world ''RC-5'' ''https://jira.test'')
       = Inl ''connect ECONNREFUSED''
   \<and> (\<exists>e'. setFailed (run_report unreachable_world 7 ''https://jira.test''
                 [''RC-1'', ''RC-2'', ''RC-5'']) = Some e')
   \<and> pulls_update (run_report unreachable_world 7 ''https://jira.test''
        [''RC-1'', ''RC-2'', ''RC-5'']) = []
   \<and> (\<exists>e. thrown (fetch_issue unusable_body_world (issue_url ''https://jira.test'' ''RC-5''))
              = Some e
          \<and> result (getJiraIssueInfo unusable_body_world ''RC-5'' ''https://jira.test'') = Inl e)
   \<and> (\<exists>e'. setFailed (run_report unusable_body_world 7 ''https://jira.test''
                 [''RC-1'', ''RC-2'', ''RC-5'']) = Some e')
   \<and> pulls_update (run_report unusable_body_world 7 ''https://jira.test''
        [''RC-1'', ''RC-2'', ''RC-5'']) = []"
proof -
  let ?ids = "[''RC-1'', ''RC-2'', ''RC-5'']"
  have n: "fetch_issue demo_world (issue_url ''https://jira.test'' ''RC-5'') = Not_Ok"
    by code_simp
  have c: "concat (map (\<lambda>k. case fetch_issue demo_world (issue_url ''https://jira.test'' k) of
                            Ok_Json data \<Rightarrow> [issue_of_json k data] | _ \<Rightarrow> [])
             ?ids) = [demo_task, demo_bug]"
    by code_simp
  have g: "(case result (generateStructuredOutput demo_world [demo_task, demo_bug]
                   ?ids ''https://jira.test'') of
              Inl e \<Rightarrow> Some e
            | Inr output \<Rightarrow> pulls_update_throws demo_world 7 output) = None"
    by code_simp
  note demo = lookup_not_ok_is_dropped
    [where ids = ?ids and w = demo_world and baseUrl = "''https://jira.test''" and prNumber = 7
       and k = "''RC-5''" and e = "''connect ECONNREFUSED''"]
  from mp [OF demo [THEN conjunct1] demo_lookups_not_thrown]
  obtain found where f: "result (jiraIssuesInfo demo_world ''https://jira.test'' ?ids) = Inr found"
    and b: "filter_Boolean found = [demo_task, demo_bug]"
    and wn: "fetch_issue demo_world (issue_url ''https://jira.test'' ''RC-5'') = Not_Ok \<longrightarrow>
           (''Unable to fetch info for '' @ ''RC-5'')
             \<in> set (warnings (jiraIssuesInfo demo_world ''https://jira.test'' ?ids))"
    and s: "setFailed (run_report demo_world 7 ''https://jira.test'' ?ids)
         = (case result (generateStructuredOutput demo_world (filter_Boolean found)
                   ?ids ''https://jira.test'') of
              Inl e \<Rightarrow> Some e
            | Inr output \<Rightarrow> pulls_update_throws demo_world 7 output)"
    unfolding c by auto
  from n wn have w5: "''Unable to fetch info for RC-5''
        \<in> set (warnings (jiraIssuesInfo demo_world ''https://jira.test'' ?ids))"
    by simp
  from s b g
  have ok: "setFailed (run_report demo_world 7 ''https://jira.test'' ?ids) = None"
    by simp
  from mp [OF demo [THEN conjunct2, THEN conjunct2] demo_run_extract]
  have rr: "run demo_world = run_report demo_world 7 ''https://jira.test'' ?ids" .
  have k5: "''RC-5'' \<in> set ?ids" by simp
  have t1: "thrown (fetch_issue unreachable_world (issue_url ''https://jira.test'' ''RC-5''))
       = Some ''connect ECONNREFUSED''"
    by code_simp
  note unreachable = lookup_not_ok_is_dropped
    [where ids = ?ids and w = unreachable_world and baseUrl = "''https://jira.test''"
       and prNumber = 7 and k = "''RC-5''" and e = "''connect ECONNREFUSED''"]
  from mp [OF unreachable [THEN conjunct2, THEN conjunct1] conjI [OF k5 t1]]
  have u1: "result (getJiraIssueInfo unreachable_world ''RC-5'' ''https://jira.test'')
       = Inl ''connect ECONNREFUSED''"
    and u2: "\<exists>e'. setFailed (run_report unreachable_world 7 ''https://jira.test'' ?ids) = Some e'"
    and u3: "pulls_update (run_report unreachable_world 7 ''https://jira.test'' ?ids) = []"
    by blast+
  obtain e where t2: "thrown (fetch_issue unusable_body_world
                        (issue_url ''https://jira.test'' ''RC-5'')) = Some e"
    by (simp add: unusable_body_world_def issue_url_def)
  note unusable = lookup_not_ok_is_dropped
    [where ids = ?ids and w = unusable_body_world and baseUrl = "''https://jira.test''"
       and prNumber = 7 and k = "''RC-5''" and e = e]
  from mp [OF unusable [THEN conjunct2, THEN conjunct1] conjI [OF k5 t2]]
  have v1: "result (getJiraIssueInfo unusable_body_world ''RC-5'' ''https://jira.test'') = Inl e"
    and v2: "\<exists>e'. setFailed (run_report unusable_body_world 7 ''https://jira.test'' ?ids) = Some e'"
    and v3: "pulls_update (run_report unusable_body_world 7 ''https://jira.test'' ?ids) = []"
    by blast+
  from t2 v1 have v0: "\<exists>e. thrown (fetch_issue unusable_body_world
                        (issue_url ''https://jira.test'' ''RC-5'')) = Some e
          \<and> result (getJiraIssueInfo unusable_body_world ''RC-5'' ''https://jira.test'') = Inl e"
    by blast
  show ?thesis
    using n f b w5 ok rr t1 u1 u2 u3 v0 v2 v3 by blast
qed

text \<open>
  C5. When the extraction gives no ticket id, the run ends with the notice: it does not
  fail, it fetches nothing from the tracker and it does not update the description.
\<close>

theorem no_ticket_no_call_no_update:
  assumes "run_context w = Inr (prNumber, baseUrl, pattern, commits)"
    and "ticketIds (RegExp_g w) pattern commits = Inr []"
  shows "setFailed (run w) = None
       \<and> notices (run w) = [''No Jira ticket IDs found in commit messages'']
       \<and> fetched (run w) = [] \<and> pulls_update (run w) = [] \<and> console_warn (run w) = []"
  using assms by (simp add: run_def run_extract_def no_tickets_def)

theorem no_ticket_no_call_no_update_witness:
  "run_context no_ticket_world
     = Inr (7, ''https://jira.test'', ''RC-[^ ]*'', [''initial commit'', ''typo''])
   \<and> ticketIds (RegExp_g no_ticket_world) ''RC-[^ ]*'' [''initial commit'', ''typo''] = Inr []
   \<and> setFailed (run no_ticket_world) = None
   \<and> notices (run no_ticket_world) = [''No Jira ticket IDs found in commit messages'']
   \<and> fetched (run no_ticket_world) = [] \<and> pulls_update (run no_ticket_world) = []"
proof -
  have c: "run_context no_ticket_world
     = Inr (7, ''https://jira.test'', ''RC-[^ ]*'', [''initial commit'', ''typo''])"
    by code_simp
  have t: "ticketIds (RegExp_g no_ticket_world) ''RC-[^ ]*'' [''initial commit'', ''typo'']
             = Inr []"
    by code_simp
  from no_ticket_no_call_no_update [OF c t] c t show ?thesis by simp
qed

text \<open>
  C6. The text that \<^verbatim>\<open>generateStructuredOutput\<close> returns is a function of the story
  map, the orphan list and the missing-child list (and the base URL of the links): it is
  the report of section 4.5, in which a section with no entry contributes no text, and
  with no group, no orphan and no missing child it is the top header alone. Two calls
  whose aggregations agree return the same text.
\<close>

theorem render_deterministic_sections:
  "render baseUrl a = report baseUrl a
   \<and> orphan_section baseUrl [] = [] \<and> missing_section baseUrl [] = []
   \<and> (storyMap a = [] \<and> orphanIssues a = [] \<and> missingChildIssues a = []
        \<longrightarrow> render baseUrl a = ''### Related Jira Issues'' @ newline @ newline)
   \<and> (result (aggregate w1 infos1 ids1 baseUrl) = Inr a
        \<and> result (aggregate w2 infos2 ids2 baseUrl) = Inr a
        \<longrightarrow> result (generateStructuredOutput w1 infos1 ids1 baseUrl)
              = result (generateStructuredOutput w2 infos2 ids2 baseUrl))"
  by (simp add: render_report result_generateStructuredOutput)
     (simp add: report_def orphan_section_def missing_section_def)

theorem render_deterministic_sections_witness:
  "result (aggregate demo_world [demo_task, demo_bug] [''RC-1'', ''RC-2'', ''RC-5'']
     ''https://jira.test'') = Inr demo_aggregation
   \<and> result (aggregate (demo_world\<lparr>latency := length\<rparr>) [demo_bug, demo_task]
        [''RC-5'', ''RC-2'', ''RC-1''] ''https://jira.test'') = Inr demo_aggregation
   \<and> result (generateStructuredOutput demo_world [demo_task, demo_bug]
        [''RC-1'', ''RC-2'', ''RC-5''] ''https://jira.test'')
       = result (generateStructuredOutput (demo_world\<lparr>latency := length\<rparr>)
           [demo_bug, demo_task] [''RC-5'', ''RC-2'', ''RC-1''] ''https://jira.test'')
   \<and> render ''https://jira.test''
        \<lparr>storyMap = [], orphanIssues = [], missingChildIssues = []\<rparr>
       = ''### Related Jira Issues'' @ newline @ newline"
proof -
  have b: "result (aggregate (demo_world\<lparr>latency := length\<rparr>) [demo_bug, demo_task]
        [''RC-5'', ''RC-2'', ''RC-1''] ''https://jira.test'') = Inr demo_aggregation"
    by code_simp
  from render_deterministic_sections [of "''https://jira.test''" demo_aggregation demo_world
         "[demo_task, demo_bug]" "[''RC-1'', ''RC-2'', ''RC-5'']"
         "demo_world\<lparr>latency := length\<rparr>" "[demo_bug, demo_task]"
         "[''RC-5'', ''RC-2'', ''RC-1'']"] demo_aggregate b
  have e: "result (generateStructuredOutput demo_world [demo_task, demo_bug]
        [''RC-1'', ''RC-2'', ''RC-5''] ''https://jira.test'')
       = result (generateStructuredOutput (demo_world\<lparr>latency := length\<rparr>)
           [demo_bug, demo_task] [''RC-5'', ''RC-2'', ''RC-1''] ''https://jira.test'')"
    by blast
  have z: "storyMap \<lparr>storyMap = [], orphanIssues = [], missingChildIssues = []\<rparr> = []
         \<and> orphanIssues \<lparr>storyMap = [], orphanIssues = [], missingChildIssues = []\<rparr> = []
         \<and> missingChildIssues \<lparr>storyMap = [], orphanIssues = [], missingChildIssues = []\<rparr> = []"
    by simp
  from render_deterministic_sections [of "''https://jira.test''"
         "\<lparr>storyMap = [], orphanIssues = [], missingChildIssues = []\<rparr>"
         demo_world "[]" "[]" demo_world "[]" "[]"] z
  have h: "render ''https://jira.test''
        \<lparr>storyMap = [], orphanIssues = [], missingChildIssues = []\<rparr>
       = ''### Related Jira Issues'' @ newline @ newline"
    by blast
  from demo_aggregate b e h show ?thesis by blast
qed

text \<open>
  C7, as stated, fails: a child search that cannot reach the tracker writes no warning
  and gives no empty list; \<^verbatim>\<open>fetch\<close> throws, \<^verbatim>\<open>Promise.all\<close> rejects, and the children
  that the search of the other Story returned contribute to no report, since the run ends
  with \<^verbatim>\<open>setFailed\<close> and no description update. Here the search for the children of
  \<^verbatim>\<open>RC-60\<close> is refused, and the search for those of \<^verbatim>\<open>RC-10\<close> succeeds.
\<close>

theorem search_unreachable_counterexample:
  "fetch_search search_unreachable_world (search_url ''https://jira.test'' ''RC-60'')
     = Rejected ''connect ECONNREFUSED''
   \<and> getStoryChildren search_unreachable_world ''RC-60'' ''https://jira.test'' =
        \<lparr>requests = [''https://jira.test/rest/api/3/search?jql=parent=RC-60''], warnings = [],
         result = Inl ''connect ECONNREFUSED''\<rparr>
   \<and> result (getStoryChildren search_unreachable_world ''RC-10'' ''https://jira.test'')
       = Inr [demo_task\<lparr>issue_parent := None\<rparr>, demo_missing,
              \<lparr>issue_key = ''RC-5'', issue_type = ''Task'', issue_title = ''Report'',
               issue_parent = None\<rparr>]
   \<and> result (missing_children_phase search_unreachable_world ''https://jira.test''
        [''RC-10'', ''RC-60''] [''RC-1'', ''RC-6'']) = Inl ''connect ECONNREFUSED''
   \<and> run search_unreachable_world =
        \<lparr>setFailed = Some ''connect ECONNREFUSED'', notices = [], console_warn = [],
         fetched = [''https://jira.test/rest/api/3/issue/RC-1'',
                    ''https://jira.test/rest/api/3/issue/RC-6'',
                    ''https://jira.test/rest/api/3/search?jql=parent=RC-10'',
                    ''https://jira.test/rest/api/3/search?jql=parent=RC-60''],
         pulls_update = []\<rparr>"
  by code_simp

text \<open>
  C7, amended. A child search that the tracker answers with a non-success status gives
  the empty child list and a warning, so that its Story contributes no missing child.
  When no child search throws (none is refused at the transport level and none has a
  success status with a body the code cannot use), the searches do not throw, and the
  children that the search of any other Story returned, if not committed, are in the
  missing-child list, which is the concatenation of the contributions in the order in
  which the searches settle. A child search that throws writes no warning and gives no
  list: \<^verbatim>\<open>Promise.all\<close> then rejects with the message of a search that threw, and a run
  whose child searches reject fails with that message and does not update the
  description.
\<close>

theorem search_not_ok_is_no_children:
  "((\<forall>k \<in> set storyKeys. thrown (fetch_search w (search_url baseUrl k)) = None) \<longrightarrow>
      (\<exists>missing. result (missing_children_phase w baseUrl storyKeys committed) = Inr missing
         \<and> missing =
             concat (map (\<lambda>k. case fetch_search w (search_url baseUrl k) of
                                Ok_Json issues \<Rightarrow>
                                  missingChildren committed (map child_of_json issues)
                              | _ \<Rightarrow> [])
                      (completion_order w (search_url baseUrl) storyKeys))
         \<and> (\<forall>k \<in> set storyKeys. fetch_search w (search_url baseUrl k) = Not_Ok \<longrightarrow>
               result (getStoryChildren w k baseUrl) = Inr []
               \<and> (''Unable to fetch children for '' @ k)
                    \<in> set (warnings (missing_children_phase w baseUrl storyKeys committed)))
         \<and> (\<forall>k \<in> set storyKeys. \<forall>issues.
               fetch_search w (search_url baseUrl k) = Ok_Json issues \<longrightarrow>
               set (missingChildren committed (map child_of_json issues)) \<subseteq> set missing)))
   \<and> (k \<in> set storyKeys \<and> thrown (fetch_search w (search_url baseUrl k)) = Some e \<longrightarrow>
        result (getStoryChildren w k baseUrl) = Inl e
        \<and> warnings (getStoryChildren w k baseUrl) = []
        \<and> (\<exists>k' e'. k' \<in> set storyKeys
              \<and> thrown (fetch_search w (search_url baseUrl k')) = Some e'
              \<and> result (missing_children_phase w baseUrl storyKeys committed) = Inl e'))
   \<and> (result (jiraIssuesInfo w baseUrl ids) = Inr found
        \<and> result (missing_children_phase w baseUrl
             (map fst (fst (group_issues (filter_Boolean found)))) (new_Set ids)) = Inl e'
        \<longrightarrow> setFailed (run_report w prNumber baseUrl ids) = Some e'
            \<and> pulls_update (run_report w prNumber baseUrl ids) = [])"
proof (intro conjI impI)
  assume none: "\<forall>k \<in> set storyKeys. thrown (fetch_search w (search_url baseUrl k)) = None"
  let ?order = "completion_order w (search_url baseUrl) storyKeys"
  let ?missing = "concat (map (\<lambda>k. case fetch_search w (search_url baseUrl k) of
                            Ok_Json issues \<Rightarrow> missingChildren committed (map child_of_json issues)
                          | _ \<Rightarrow> []) ?order)"
  have nr': "\<forall>k \<in> set ?order. thrown (fetch_search w (search_url baseUrl k)) = None"
    using none by (simp add: set_completion_order)
  have "result (Promise_all w (search_url baseUrl) storyKeys (\<lambda>k. getStoryChildren w k baseUrl))
          = Inr (fulfilled (map (\<lambda>k. result (getStoryChildren w k baseUrl)) storyKeys))"
    using search_no_rejection[OF none] by (rule Promise_all_no_rejection)
  then have r: "result (missing_children_phase w baseUrl storyKeys committed) = Inr ?missing"
    by (simp add: result_missing_children_phase_eq fulfilled_children[OF nr'])
  have a: "\<forall>k \<in> set storyKeys. fetch_search w (search_url baseUrl k) = Not_Ok \<longrightarrow>
           result (getStoryChildren w k baseUrl) = Inr []
           \<and> (''Unable to fetch children for '' @ k)
                \<in> set (warnings (missing_children_phase w baseUrl storyKeys committed))"
  proof (intro ballI impI conjI)
    fix k assume k: "k \<in> set storyKeys" and n: "fetch_search w (search_url baseUrl k) = Not_Ok"
    from n show "result (getStoryChildren w k baseUrl) = Inr []"
      by (simp add: result_getStoryChildren)
    from k n show "(''Unable to fetch children for '' @ k)
                \<in> set (warnings (missing_children_phase w baseUrl storyKeys committed))"
      by (rule search_warning)
  qed
  have b: "\<forall>k \<in> set storyKeys. \<forall>issues.
           fetch_search w (search_url baseUrl k) = Ok_Json issues \<longrightarrow>
           set (missingChildren committed (map child_of_json issues)) \<subseteq> set ?missing"
  proof (intro ballI allI impI)
    fix k issues assume k: "k \<in> set storyKeys"
      and o: "fetch_search w (search_url baseUrl k) = Ok_Json issues"
    from k have "k \<in> set ?order" by (simp add: set_completion_order)
    then have "set (case fetch_search w (search_url baseUrl k) of
                            Ok_Json issues \<Rightarrow> missingChildren committed (map child_of_json issues)
                          | _ \<Rightarrow> []) \<subseteq> set ?missing"
      by (rule set_concat_map_member)
    with o show "set (missingChildren committed (map child_of_json issues)) \<subseteq> set ?missing"
      by simp
  qed
  from r a b
  show "\<exists>missing. result (missing_children_phase w baseUrl storyKeys committed) = Inr missing
         \<and> missing =
             concat (map (\<lambda>k. case fetch_search w (search_url baseUrl k) of
                                Ok_Json issues \<Rightarrow>
                                  missingChildren committed (map child_of_json issues)
                              | _ \<Rightarrow> [])
                      (completion_order w (search_url baseUrl) storyKeys))
         \<and> (\<forall>k \<in> set storyKeys. fetch_search w (search_url baseUrl k) = Not_Ok \<longrightarrow>
               result (getStoryChildren w k baseUrl) = Inr []
               \<and> (''Unable to fetch children for '' @ k)
                    \<in> set (warnings (missing_children_phase w baseUrl storyKeys committed)))
         \<and> (\<forall>k \<in> set storyKeys. \<forall>issues.
               fetch_search w (search_url baseUrl k) = Ok_Json issues \<longrightarrow>
               set (missingChildren committed (map child_of_json issues)) \<subseteq> set missing)"
    by blast
next
  assume "k \<in> set storyKeys \<and> thrown (fetch_search w (search_url baseUrl k)) = Some e"
  then show "result (getStoryChildren w k baseUrl) = Inl e"
    by (simp add: getStoryChildren_thrown)
next
  assume "k \<in> set storyKeys \<and> thrown (fetch_search w (search_url baseUrl k)) = Some e"
  then show "warnings (getStoryChildren w k baseUrl) = []"
    by (simp add: getStoryChildren_thrown)
next
  assume "k \<in> set storyKeys \<and> thrown (fetch_search w (search_url baseUrl k)) = Some e"
  then have "k \<in> set storyKeys" and "thrown (fetch_search w (search_url baseUrl k)) = Some e"
    by simp_all
  then show "\<exists>k' e'. k' \<in> set storyKeys
              \<and> thrown (fetch_search w (search_url baseUrl k')) = Some e'
              \<and> result (missing_children_phase w baseUrl storyKeys committed) = Inl e'"
    by (rule search_rejection)
next
  assume h: "result (jiraIssuesInfo w baseUrl ids) = Inr found
        \<and> result (missing_children_phase w baseUrl
             (map fst (fst (group_issues (filter_Boolean found)))) (new_Set ids)) = Inl e'"
  then have g: "result (generateStructuredOutput w (filter_Boolean found) ids baseUrl) = Inl e'"
    by (simp add: generateStructuredOutput_searches_throw)
  from h have f: "result (jiraIssuesInfo w baseUrl ids) = Inr found" by simp
  from run_report_output_throws[OF f g]
  show "setFailed (run_report w prNumber baseUrl ids) = Some e'" by simp
next
  assume h: "result (jiraIssuesInfo w baseUrl ids) = Inr found
        \<and> result (missing_children_phase w baseUrl
             (map fst (fst (group_issues (filter_Boolean found)))) (new_Set ids)) = Inl e'"
  then have g: "result (generateStructuredOutput w (filter_Boolean found) ids baseUrl) = Inl e'"
    by (simp add: generateStructuredOutput_searches_throw)
  from h have f: "result (jiraIssuesInfo w baseUrl ids) = Inr found" by simp
  from run_report_output_throws[OF f g]
  show "pulls_update (run_report w prNumber baseUrl ids) = []" by simp
qed

theorem search_not_ok_is_no_children_witness:
  "fetch_search two_story_world (search_url ''https://jira.test'' ''RC-60'') = Not_Ok
   \<and> result (getStoryChildren two_story_world ''RC-60'' ''https://jira.test'') = Inr []
   \<and> ''Unable to fetch children for RC-60''
        \<in> set (warnings (missing_children_phase two_story_world ''https://jira.test''
                  [''RC-10'', ''RC-60''] [''RC-1'', ''RC-6'']))
   \<and> result (missing_children_phase two_story_world ''https://jira.test''
        [''RC-10'', ''RC-60''] [''RC-1'', ''RC-6''])
       = Inr [demo_missing,
              \<lparr>issue_key = ''RC-5'', issue_type = ''Task'', issue_title = ''Report'',
               issue_parent = None\<rparr>]
   \<and> thrown (fetch_search search_unreachable_world (search_url ''https://jira.test'' ''RC-60''))
       = Some ''connect ECONNREFUSED''
   \<and> result (getStoryChildren search_unreachable_world ''RC-60'' ''https://jira.test'')
       = Inl ''connect ECONNREFUSED''
   \<and> (\<exists>e'. result (missing_children_phase search_unreachable_world ''https://jira.test''
                 [''RC-10'', ''RC-60''] [''RC-1'', ''RC-6'']) = Inl e')
   \<and> (\<exists>e. thrown (fetch_search search_unusable_world (search_url ''https://jira.test'' ''RC-60''))
              = Some e
          \<and> result (getStoryChildren search_unusable_world ''RC-60'' ''https://jira.test'') = Inl e
          \<and> result (missing_children_phase search_unusable_world ''https://jira.test''
               [''RC-10'', ''RC-60''] (new_Set [''RC-1'', ''RC-6''])) = Inl e
          \<and> setFailed (run_report search_unusable_world 7 ''https://jira.test''
               [''RC-1'', ''RC-6'']) = Some e)
   \<and> pulls_update (run_report search_unusable_world 7 ''https://jira.test''
        [''RC-1'', ''RC-6'']) = []"
proof -
  let ?keys = "[''RC-10'', ''RC-60'']"
  let ?ids = "[''RC-1'', ''RC-6'']"
  have n: "fetch_search two_story_world (search_url ''https://jira.test'' ''RC-60'') = Not_Ok"
    by code_simp
  have c: "concat (map (\<lambda>k. case fetch_search two_story_world (search_url ''https://jira.test'' k) of
                            Ok_Json issues \<Rightarrow> missingChildren ?ids (map child_of_json issues)
                          | _ \<Rightarrow> [])
                  (completion_order two_story_world (search_url ''https://jira.test'') ?keys))
           = [demo_missing,
              \<lparr>issue_key = ''RC-5'', issue_type = ''Task'', issue_title = ''Report'',
               issue_parent = None\<rparr>]"
    by code_simp
  note ok = search_not_ok_is_no_children
    [where storyKeys = ?keys and w = two_story_world and baseUrl = "''https://jira.test''"
       and committed = ?ids]
  from mp [OF ok [THEN conjunct1] demo_searches_not_thrown]
  obtain missing where r: "result (missing_children_phase two_story_world ''https://jira.test''
        ?keys ?ids) = Inr missing"
    and m: "missing = [demo_missing,
              \<lparr>issue_key = ''RC-5'', issue_type = ''Task'', issue_title = ''Report'',
               issue_parent = None\<rparr>]"
    and wn: "fetch_search two_story_world (search_url ''https://jira.test'' ''RC-60'') = Not_Ok
           \<longrightarrow> result (getStoryChildren two_story_world ''RC-60'' ''https://jira.test'') = Inr []
           \<and> (''Unable to fetch children for '' @ ''RC-60'')
                \<in> set (warnings (missing_children_phase two_story_world ''https://jira.test''
                  ?keys ?ids))"
    unfolding c by auto
  from n wn have w60: "result (getStoryChildren two_story_world ''RC-60'' ''https://jira.test'') = Inr []
     \<and> ''Unable to fetch children for RC-60''
        \<in> set (warnings (missing_children_phase two_story_world ''https://jira.test''
                  ?keys ?ids))"
    by simp
  have k60: "''RC-60'' \<in> set ?keys" by simp
  have t1: "thrown (fetch_search search_unreachable_world
              (search_url ''https://jira.test'' ''RC-60'')) = Some ''connect ECONNREFUSED''"
    by code_simp
  note unreachable = search_not_ok_is_no_children
    [where storyKeys = ?keys and w = search_unreachable_world
       and baseUrl = "''https://jira.test''" and committed = ?ids and k = "''RC-60''"
       and e = "''connect ECONNREFUSED''"]
  from mp [OF unreachable [THEN conjunct2, THEN conjunct1] conjI [OF k60 t1]]
  have u1: "result (getStoryChildren search_unreachable_world ''RC-60'' ''https://jira.test'')
       = Inl ''connect ECONNREFUSED''"
    and u2: "\<exists>e'. result (missing_children_phase search_unreachable_world ''https://jira.test''
                 ?keys ?ids) = Inl e'"
    by blast+
  obtain e where t2: "thrown (fetch_search search_unusable_world
                        (search_url ''https://jira.test'' ''RC-60'')) = Some e"
    by (simp add: search_unusable_world_def search_url_def)
  have f: "result (jiraIssuesInfo search_unusable_world ''https://jira.test'' ?ids)
             = Inr [Some demo_task,
                    Some \<lparr>issue_key = ''RC-6'', issue_type = ''Task'', issue_title = ''Export'',
                          issue_parent = Some \<lparr>parent_key = ''RC-60'', parent_type = ''Story'',
                                                parent_title = ''Exporter''\<rparr>\<rparr>]"
    by code_simp
  have gk: "map fst (fst (group_issues (filter_Boolean
              [Some demo_task,
               Some \<lparr>issue_key = ''RC-6'', issue_type = ''Task'', issue_title = ''Export'',
                     issue_parent = Some \<lparr>parent_key = ''RC-60'', parent_type = ''Story'',
                                           parent_title = ''Exporter''\<rparr>\<rparr>]))) = ?keys"
    by code_simp
  have p: "result (missing_children_phase search_unusable_world ''https://jira.test''
               ?keys (new_Set ?ids)) = Inl e"
    using t2 by (simp add: search_unusable_world_def search_url_def missing_children_phase_def
        Promise_all_def completion_order_def getStoryChildren_def two_story_world_def
        demo_world_def demo_fetch_search_def)
  note unusable = search_not_ok_is_no_children
    [where storyKeys = ?keys and w = search_unusable_world
       and baseUrl = "''https://jira.test''" and committed = "new_Set ?ids" and k = "''RC-60''"
       and e = e and ids = ?ids and e' = e and prNumber = 7
       and found = "[Some demo_task,
               Some \<lparr>issue_key = ''RC-6'', issue_type = ''Task'', issue_title = ''Export'',
                     issue_parent = Some \<lparr>parent_key = ''RC-60'', parent_type = ''Story'',
                                           parent_title = ''Exporter''\<rparr>\<rparr>]"]
  from mp [OF unusable [THEN conjunct2, THEN conjunct1] conjI [OF k60 t2]]
  have v1: "result (getStoryChildren search_unusable_world ''RC-60'' ''https://jira.test'') = Inl e"
    by blast
  from p have p': "result (missing_children_phase search_unusable_world ''https://jira.test''
             (map fst (fst (group_issues (filter_Boolean
              [Some demo_task,
               Some \<lparr>issue_key = ''RC-6'', issue_type = ''Task'', issue_title = ''Export'',
                     issue_parent = Some \<lparr>parent_key = ''RC-60'', parent_type = ''Story'',
                                           parent_title = ''Exporter''\<rparr>\<rparr>]))))
             (new_Set ?ids)) = Inl e"
    unfolding gk .
  from mp [OF unusable [THEN conjunct2, THEN conjunct2] conjI [OF f p']]
  have v2: "setFailed (run_report search_unusable_world 7 ''https://jira.test'' ?ids) = Some e"
    and v3: "pulls_update (run_report search_unusable_world 7 ''https://jira.test'' ?ids) = []"
    by blast+
  from t2 v1 p v2
  have v0: "\<exists>e. thrown (fetch_search search_unusable_world
                     (search_url ''https://jira.test'' ''RC-60'')) = Some e
          \<and> result (getStoryChildren search_unusable_world ''RC-60'' ''https://jira.test'') = Inl e
          \<and> result (missing_children_phase search_unusable_world ''https://jira.test''
               ?keys (new_Set ?ids)) = Inl e
          \<and> setFailed (run_report search_unusable_world 7 ''https://jira.test'' ?ids) = Some e"
    by blast
  show ?thesis
    using n r m w60 t1 u1 u2 v0 v3 by blast
qed

text \<open>
  C8, as stated, fails: with the pattern \<^verbatim>\<open>(\<close>, which does not compile, and a pull
  request with no commit, the callback that compiles the pattern is never called, and the
  run ends with the notice that no ticket id was found, not with a failure.
\<close>

theorem invalid_pattern_counterexample:
  "RegExp_g bad_pattern_no_commit_world ''('' = Inl ''Invalid regular expression: /(/g''
   \<and> run_context bad_pattern_no_commit_world = Inr (7, ''https://jira.test'', ''('', [])
   \<and> setFailed (run bad_pattern_no_commit_world) = None
   \<and> notices (run bad_pattern_no_commit_world)
       = [''No Jira ticket IDs found in commit messages'']"
  by (simp add: run_def run_extract_def run_context_def bad_pattern_no_commit_world_def
      bad_pattern_world_def demo_world_def demo_getInput_def demo_RegExp_def literal_char_def
      ticketIds_def new_Set_def no_tickets_def)

text \<open>
  C8, amended. When the configured pattern does not compile and the pull request has at
  least one commit, the run fails with the message of the SyntaxError; it fetches nothing
  from the tracker and does not update the description.
\<close>

theorem invalid_pattern_fails_with_commits:
  assumes "run_context w = Inr (prNumber, baseUrl, pattern, commits)"
    and "RegExp_g w pattern = Inl e" and "commits \<noteq> []"
  shows "setFailed (run w) = Some e \<and> notices (run w) = []
       \<and> fetched (run w) = [] \<and> pulls_update (run w) = []"
  using assms
  by (simp add: run_def run_extract_def ticketIds_def commits_map_invalid failure_def)

theorem invalid_pattern_fails_with_commits_witness:
  "run_context bad_pattern_world
     = Inr (7, ''https://jira.test'', ''('', [''RC-1 fix'', ''RC-2 also RC-1'', ''RC-5 wip''])
   \<and> RegExp_g bad_pattern_world ''('' = Inl ''Invalid regular expression: /(/g''
   \<and> setFailed (run bad_pattern_world) = Some ''Invalid regular expression: /(/g''
   \<and> fetched (run bad_pattern_world) = [] \<and> pulls_update (run bad_pattern_world) = []"
proof -
  have c: "run_context bad_pattern_world
     = Inr (7, ''https://jira.test'', ''('', [''RC-1 fix'', ''RC-2 also RC-1'', ''RC-5 wip''])"
    by code_simp
  have r: "RegExp_g bad_pattern_world ''('' = Inl ''Invalid regular expression: /(/g''"
    by (simp add: bad_pattern_world_def demo_world_def demo_RegExp_def literal_char_def)
  from invalid_pattern_fails_with_commits [OF c r] c r show ?thesis by simp
qed

text \<open>
  C9. In a run that reaches the aggregation, no extracted ticket id is the key of a
  missing child, whether or not its own lookup succeeded: the membership test of line
  184 is against all the extracted ids, while the aggregation gets only the issues whose
  lookup succeeded. The report that the run writes is the one rendered from this
  aggregation.
\<close>

theorem committed_key_never_missing:
  assumes "run_extract w = Inr (prNumber, baseUrl, ids)"
    and "result (jiraIssuesInfo w baseUrl ids) = Inr found"
    and "result (aggregate w (filter_Boolean found) ids baseUrl) = Inr a"
    and "k \<in> set ids"
  shows "k \<notin> issue_key ` set (missingChildIssues a)
       \<and> pulls_update (run w) = [(prNumber, render baseUrl a)]"
proof
  show "k \<notin> issue_key ` set (missingChildIssues a)"
  proof
    assume "k \<in> issue_key ` set (missingChildIssues a)"
    then obtain c where c: "c \<in> set (missingChildIssues a)" and kc: "issue_key c = k" by auto
    from missing_child_origin[OF result_aggregate(3)[OF assms(3)] c]
    have "issue_key c \<notin> set ids" by (auto simp: set_new_Set)
    with kc assms(4) show False by simp
  qed
  show "pulls_update (run w) = [(prNumber, render baseUrl a)]"
    using assms(1,2) result_generateStructuredOutput[OF assms(3)]
    by (simp add: run_def run_report_def Let_def)
qed

theorem committed_key_never_missing_witness:
  "fetch_issue demo_world (issue_url ''https://jira.test'' ''RC-5'') = Not_Ok
   \<and> (\<exists>issues. fetch_search demo_world (search_url ''https://jira.test'' ''RC-10'')
                  = Ok_Json issues \<and> ''RC-5'' \<in> cj_key ` set issues)
   \<and> run_extract demo_world = Inr (7, ''https://jira.test'', [''RC-1'', ''RC-2'', ''RC-5''])
   \<and> result (jiraIssuesInfo demo_world ''https://jira.test'' [''RC-1'', ''RC-2'', ''RC-5''])
       = Inr [Some demo_task, Some demo_bug, None]
   \<and> result (aggregate demo_world (filter_Boolean [Some demo_task, Some demo_bug, None])
        [''RC-1'', ''RC-2'', ''RC-5''] ''https://jira.test'') = Inr demo_aggregation
   \<and> ''RC-5'' \<notin> issue_key ` set (missingChildIssues demo_aggregation)
   \<and> pulls_update (run demo_world) = [(7, render ''https://jira.test'' demo_aggregation)]"
proof -
  have n: "fetch_issue demo_world (issue_url ''https://jira.test'' ''RC-5'') = Not_Ok"
    by code_simp
  have s: "\<exists>issues. fetch_search demo_world (search_url ''https://jira.test'' ''RC-10'')
                  = Ok_Json issues \<and> ''RC-5'' \<in> cj_key ` set issues"
    by (simp add: demo_world_def demo_fetch_search_def search_url_def)
  have a: "result (aggregate demo_world (filter_Boolean [Some demo_task, Some demo_bug, None])
        [''RC-1'', ''RC-2'', ''RC-5''] ''https://jira.test'') = Inr demo_aggregation"
    using demo_aggregate by simp
  have k: "''RC-5'' \<in> set [''RC-1'', ''RC-2'', ''RC-5'']" by simp
  from committed_key_never_missing [OF demo_run_extract demo_jiraIssuesInfo a k]
       n s demo_run_extract demo_jiraIssuesInfo a
  show ?thesis by blast
qed

text \<open>
  C10. With a pattern that compiles, the ticket ids extracted from two lists of commit
  messages put one after the other are, as a set, the union of the ids extracted from
  each list: every message is matched by itself, with an expression compiled for it.
\<close>

theorem ticketIds_concat:
  assumes "re pattern = Inr regex"
  shows "\<exists>a b c. ticketIds re pattern (xs @ ys) = Inr c \<and> ticketIds re pattern xs = Inr a
           \<and> ticketIds re pattern ys = Inr b \<and> set c = set a \<union> set b"
  using assms by (simp add: ticketIds_compiled set_new_Set)

theorem ticketIds_concat_witness:
  "demo_RegExp ''RC-[^ ]*'' = Inr (demo_match ''RC-'' True)
   \<and> ticketIds demo_RegExp ''RC-[^ ]*'' [''RC-1 fix''] = Inr [''RC-1'']
   \<and> ticketIds demo_RegExp ''RC-[^ ]*'' [''RC-2 also RC-1'', ''RC-5 wip'']
       = Inr [''RC-2'', ''RC-1'', ''RC-5'']
   \<and> (\<exists>c. ticketIds demo_RegExp ''RC-[^ ]*'' ([''RC-1 fix''] @ [''RC-2 also RC-1'', ''RC-5 wip''])
              = Inr c \<and> set c = set [''RC-1''] \<union> set [''RC-2'', ''RC-1'', ''RC-5''])"
proof -
  have a: "ticketIds demo_RegExp ''RC-[^ ]*'' [''RC-1 fix''] = Inr [''RC-1'']"
    by code_simp
  have b: "ticketIds demo_RegExp ''RC-[^ ]*'' [''RC-2 also RC-1'', ''RC-5 wip'']
       = Inr [''RC-2'', ''RC-1'', ''RC-5'']"
    by code_simp
  from ticketIds_concat [of demo_RegExp "''RC-[^ ]*''" "demo_match ''RC-'' True"
         "[''RC-1 fix'']" "[''RC-2 also RC-1'', ''RC-5 wip'']", OF demo_default_pattern]
  have "\<exists>c. ticketIds demo_RegExp ''RC-[^ ]*'' ([''RC-1 fix''] @ [''RC-2 also RC-1'', ''RC-5 wip''])
              = Inr c \<and> set c = set [''RC-1''] \<union> set [''RC-2'', ''RC-1'', ''RC-5'']"
    unfolding a b by blast
  with demo_default_pattern a b show ?thesis by blast
qed


end
